theory Spec2Isabelle
  imports Main
begin

section \<open>The Kalabox engine module (lib/engine.js)\<close>

text \<open>
  The module keeps four module-level variables (\<open>engine\<close>, \<open>isProviderInstalled\<close>,
  \<open>isProviderUp\<close>, \<open>engineHasBeenInit\<close>) and talks to two outside modules: the provider
  (\<open>./engine/provider.js\<close>) and the backend engine that \<open>exports.init\<close> loads by name.
  Both are outside the file, so their behaviour is a parameter of the model.

  The embedding is in direct style. A source function that ends by calling its callback
  with arguments \<open>args\<close> is a HOL function that returns those arguments together with
  the new values of the module variables. This is faithful because no source function
  does anything after it has called its callback. Two conventions of Node callbacks are
  taken from the outside modules: an asynchronous operation calls the callback it is
  given exactly once, and an outside function does not throw. Operations are run one
  after the other: a new operation starts after the previous one has called back.
\<close>

subsection \<open>JavaScript values\<close>

datatype jsval =
    JUndefined
  | JNull
  | JBool bool
  | JNum int
  | JStr string
  | JError string
  | JObject "(string \<times> jsval) list"
  | JFunction nat

text \<open>\<open>JError msg\<close> is \<open>new Error(msg)\<close>; \<open>JFunction k\<close> is a function value, named by \<open>k\<close>.\<close>

fun truthy :: "jsval \<Rightarrow> bool" where
  "truthy JUndefined = False"
| "truthy JNull = False"
| "truthy (JBool b) = b"
| "truthy (JNum n) = (n \<noteq> 0)"
| "truthy (JStr s) = (s \<noteq> [])"
| "truthy (JError m) = True"
| "truthy (JObject fs) = True"
| "truthy (JFunction k) = True"

text \<open>\<open>typeof v === 'function'\<close>.\<close>

fun is_function :: "jsval \<Rightarrow> bool" where
  "is_function (JFunction k) = True"
| "is_function v = False"

text \<open>The \<open>i\<close>-th argument of a call; a missing argument reads as \<open>undefined\<close>.\<close>

definition arg :: "nat \<Rightarrow> jsval list \<Rightarrow> jsval" where
  "arg i args = (if i < length args then args ! i else JUndefined)"

text \<open>
  Reading a property \<open>v.name\<close>: a \<open>TypeError\<close> on \<open>null\<close> and \<open>undefined\<close>, the
  first binding of an object, \<open>undefined\<close> where there is none.
\<close>

definition get_prop :: "jsval \<Rightarrow> string \<Rightarrow> jsval + jsval" where
  "get_prop v name =
     (case v of
        JUndefined \<Rightarrow>
          Inl (JError (''TypeError: Cannot read property '' @ [CHR 0x27] @ name @ [CHR 0x27] @ '' of undefined''))
      | JNull \<Rightarrow>
          Inl (JError (''TypeError: Cannot read property '' @ [CHR 0x27] @ name @ [CHR 0x27] @ '' of null''))
      | JObject fs \<Rightarrow> (case map_of fs name of Some x \<Rightarrow> Inr x | None \<Rightarrow> Inr JUndefined)
      | _ \<Rightarrow> Inr JUndefined)"

text \<open>\<open>xs.join(sep)\<close> on an array of strings.\<close>

fun join :: "string \<Rightarrow> string list \<Rightarrow> string" where
  "join sep [] = []"
| "join sep [x] = x"
| "join sep (x # y # ys) = x @ sep @ join sep (y # ys)"

subsection \<open>Outside modules and the log of calls to them\<close>

datatype target = Provider | Engine | Core | Node

text \<open>
  \<open>Call t name args\<close>: the module called \<open>name\<close> of \<open>t\<close> with the arguments \<open>args\<close>.
  A callback that is a closure of this module is left out of \<open>args\<close>; a callback of the
  caller that is handed on is part of them.
\<close>

datatype event = Call target string "jsval list"

text \<open>
  An outside function sees the log of all calls so far, its own call last. An
  asynchronous one answers with the arguments it calls its callback with, a synchronous
  one with its return value.
\<close>

type_synonym async_fn = "event list \<Rightarrow> jsval list"
type_synonym sync_fn = "event list \<Rightarrow> jsval"

record provider_module =
  provider_getName :: "event list \<Rightarrow> string"
  provider_isInstalled :: async_fn
  provider_isUp :: async_fn
  provider_engineConfig :: async_fn
  provider_up :: async_fn
  provider_down :: async_fn

record engine_module =
  engine_getProviderModule :: sync_fn
  engine_init :: sync_fn
  engine_list :: async_fn
  engine_get :: sync_fn
  engine_inspect :: async_fn
  engine_create :: async_fn
  engine_start :: async_fn
  engine_stop :: async_fn
  engine_remove :: async_fn
  engine_build :: async_fn
  engine_pull :: async_fn

text \<open>
  \<open>require path\<close> is Node's \<open>require\<close> on the engine files: \<open>None\<close> when it throws
  (no such module).
\<close>

record env =
  provider :: provider_module
  require :: "string \<Rightarrow> engine_module option"

subsection \<open>Module state\<close>

record state =
  engine :: "engine_module option"
  isProviderInstalled :: bool
  isProviderUp :: bool
  engineHasBeenInit :: bool
  trace :: "event list"

text \<open>The module as loaded: lines 15, 21, 39 and 57.\<close>

definition initial_state :: state where
  "initial_state =
     \<lparr>engine = None, isProviderInstalled = False, isProviderUp = False,
      engineHasBeenInit = False, trace = []\<rparr>"

text \<open>How an operation ends.\<close>

datatype outcome =
    Invoked jsval "jsval list"
  | Returned jsval
  | Threw jsval

text \<open>\<open>f(args)\<close> for a value \<open>f\<close> of the caller: a \<open>TypeError\<close> unless \<open>f\<close> is a function.\<close>

definition not_a_function :: jsval where
  "not_a_function = JError ''TypeError: callback is not a function''"

definition invoke :: "jsval \<Rightarrow> jsval list \<Rightarrow> outcome" where
  "invoke f args = (if is_function f then Invoked f args else Threw not_a_function)"

definition log_call :: "target \<Rightarrow> string \<Rightarrow> jsval list \<Rightarrow> state \<Rightarrow> state" where
  "log_call t name args st = st\<lparr>trace := trace st @ [Call t name args]\<rparr>"

text \<open>Calling an outside function: the call is logged, then the function answers.\<close>

definition call_out :: "target \<Rightarrow> string \<Rightarrow> jsval list \<Rightarrow> (event list \<Rightarrow> 'a) \<Rightarrow> state \<Rightarrow> 'a \<times> state" where
  "call_out t name args f st =
     (let st' = log_call t name args st in (f (trace st'), st'))"

subsection \<open>The readiness gate\<close>

text \<open>Lines 17-19: \<open>new Error(['Provider "' + provider.getName() + '"', msg].join(' '))\<close>.\<close>

definition makeProviderError :: "provider_module \<Rightarrow> string \<Rightarrow> state \<Rightarrow> jsval \<times> state" where
  "makeProviderError p msg st =
     (let (name, st') = call_out Provider ''getName'' [] (provider_getName p) st
      in (JError (join '' '' [''Provider '' @ [CHR 0x22] @ name @ [CHR 0x22], msg]), st'))"

text \<open>
  Lines 22-37. The result is the argument \<open>verifyProviderInstalled\<close> calls its callback
  with: \<open>null\<close>, the provider's error, or the error made here.
\<close>

definition verifyProviderInstalled :: "provider_module \<Rightarrow> state \<Rightarrow> jsval \<times> state" where
  "verifyProviderInstalled p st =
     (if isProviderInstalled st then (JNull, st)
      else
        (let (args, st1) = call_out Provider ''isInstalled'' [] (provider_isInstalled p) st;
             err = arg 0 args;
             isInstalled = arg 1 args
         in if truthy err then (err, st1)
            else if \<not> truthy isInstalled then makeProviderError p ''is NOT installed!'' st1
            else (JNull, st1\<lparr>isProviderInstalled := True\<rparr>)))"

text \<open>Lines 40-55.\<close>

definition verifyProviderUp :: "provider_module \<Rightarrow> state \<Rightarrow> jsval \<times> state" where
  "verifyProviderUp p st =
     (if isProviderUp st then (JNull, st)
      else
        (let (args, st1) = call_out Provider ''isUp'' [] (provider_isUp p) st;
             err = arg 0 args;
             isUp = arg 1 args
         in if truthy err then (err, st1)
            else if \<not> truthy isUp then makeProviderError p ''is NOT up!'' st1
            else (JNull, st1\<lparr>isProviderUp := True\<rparr>)))"

text \<open>
  Lines 58-86. \<open>verifyProviderIsReady\<close> either calls its callback (\<open>CalledBack err\<close>) or,
  when \<open>engine\<close> is still \<open>null\<close> at \<open>engine.init(config)\<close>, throws inside the provider's
  callback and never calls its own (\<open>Raised\<close>).
\<close>

datatype verdict = CalledBack jsval | Raised jsval

definition null_engine :: "string \<Rightarrow> jsval" where
  "null_engine name =
     JError (''TypeError: Cannot read property '' @ [CHR 0x27] @ name @ [CHR 0x27] @ '' of null'')"

definition verifyProviderIsReady :: "env \<Rightarrow> state \<Rightarrow> verdict \<times> state" where
  "verifyProviderIsReady ev st =
     (let (err, st1) = verifyProviderInstalled (provider ev) st
      in if truthy err then (CalledBack err, st1)
         else
           (let (err, st2) = verifyProviderUp (provider ev) st1
            in if truthy err then (CalledBack err, st2)
               else if \<not> engineHasBeenInit st2 then
                 (let (args, st3) =
                        call_out Provider ''engineConfig'' [] (provider_engineConfig (provider ev)) st2;
                      err = arg 0 args;
                      config = arg 1 args
                  in if truthy err then (CalledBack err, st3)
                     else
                       (case engine st3 of
                          None \<Rightarrow> (Raised (null_engine ''init''), st3)
                        | Some e \<Rightarrow>
                            (let (r, st4) = call_out Engine ''init'' [config] (engine_init e) st3
                             in (CalledBack JNull, st4\<lparr>engineHasBeenInit := True\<rparr>))))
               else (CalledBack JNull, st2)))"

subsection \<open>The exported operations\<close>

text \<open>Lines 88-90.\<close>

definition exports_getProviderName :: "env \<Rightarrow> state \<Rightarrow> outcome \<times> state" where
  "exports_getProviderName ev st =
     (let (name, st') = call_out Provider ''getName'' [] (provider_getName (provider ev)) st
      in (Returned (JStr name), st'))"

text \<open>Lines 92-94: the caller's callback goes to the provider as it is.\<close>

definition exports_isUp :: "env \<Rightarrow> jsval \<Rightarrow> state \<Rightarrow> outcome \<times> state" where
  "exports_isUp ev callback st =
     (let (args, st') = call_out Provider ''isUp'' [callback] (provider_isUp (provider ev)) st
      in (invoke callback args, st'))"

text \<open>Lines 103-108. Only the \<open>engine\<close> property of the global configuration is read.\<close>

record globalConfig =
  config_engine :: string

definition exports_init :: "env \<Rightarrow> globalConfig \<Rightarrow> state \<Rightarrow> outcome \<times> state" where
  "exports_init ev cfg st =
     (case engine st of
        Some e \<Rightarrow> (Returned JUndefined, st)
      | None \<Rightarrow>
          (let path = ''./engine/'' @ config_engine cfg @ ''.js'';
               st1 = log_call Node ''require'' [JStr path] st
           in case require ev path of
                None \<Rightarrow> (Threw (JError (''Cannot find module '' @ path)), st1)
              | Some e \<Rightarrow>
                  (let st2 = st1\<lparr>engine := Some e\<rparr>;
                       (pm, st3) = call_out Engine ''getProviderModule'' [] (engine_getProviderModule e) st2;
                       st4 = log_call Core ''deps.register'' [JStr ''providerModule'', pm] st3
                   in (Returned JUndefined, st4))))"

text \<open>Lines 116-125 and 132-141. The argument \<open>attempts\<close> is in the signature only.\<close>

definition exports_up :: "env \<Rightarrow> jsval \<Rightarrow> jsval \<Rightarrow> state \<Rightarrow> outcome \<times> state" where
  "exports_up ev attempts callback st =
     (let (err, st1) = verifyProviderInstalled (provider ev) st
      in if truthy err then (invoke callback [err], st1)
         else
           (let (args, st2) = call_out Provider ''up'' [callback] (provider_up (provider ev)) st1
            in (invoke callback args, st2)))"

definition exports_down :: "env \<Rightarrow> jsval \<Rightarrow> jsval \<Rightarrow> state \<Rightarrow> outcome \<times> state" where
  "exports_down ev attempts callback st =
     (let (err, st1) = verifyProviderInstalled (provider ev) st
      in if truthy err then (invoke callback [err], st1)
         else
           (let (args, st2) = call_out Provider ''down'' [callback] (provider_down (provider ev)) st1
            in (invoke callback args, st2)))"

text \<open>
  \<open>engine.name(args, callback)\<close>: a \<open>TypeError\<close> while \<open>engine\<close> is \<open>null\<close>; otherwise the
  backend is called and calls the callback with its answer.
\<close>

definition engine_async ::
  "string \<Rightarrow> (engine_module \<Rightarrow> async_fn) \<Rightarrow> jsval list \<Rightarrow> jsval \<Rightarrow> state \<Rightarrow> outcome \<times> state" where
  "engine_async name m args callback st =
     (case engine st of
        None \<Rightarrow> (Threw (null_engine name), st)
      | Some e \<Rightarrow>
          (let (r, st') = call_out Engine name (args @ [callback]) (m e) st
           in (invoke callback r, st')))"

text \<open>
  The frame every gated operation shares: \<open>verifyProviderIsReady(function(err) { if (err)
  callback(err) else body })\<close>.
\<close>

definition gated :: "env \<Rightarrow> jsval \<Rightarrow> (state \<Rightarrow> outcome \<times> state) \<Rightarrow> state \<Rightarrow> outcome \<times> state" where
  "gated ev callback body st =
     (case verifyProviderIsReady ev st of
        (Raised x, st1) \<Rightarrow> (Threw x, st1)
      | (CalledBack err, st1) \<Rightarrow>
          if truthy err then (invoke callback [err], st1) else body st1)"

text \<open>Lines 154-162.\<close>

definition exports_list :: "env \<Rightarrow> jsval \<Rightarrow> jsval \<Rightarrow> state \<Rightarrow> outcome \<times> state" where
  "exports_list ev appName callback st =
     gated ev callback (engine_async ''list'' engine_list [appName] callback) st"

text \<open>Lines 169-178: \<open>engine.get(cid)\<close>, then \<open>engine.inspect(container, callback)\<close>.\<close>

definition exports_inspect :: "env \<Rightarrow> jsval \<Rightarrow> jsval \<Rightarrow> state \<Rightarrow> outcome \<times> state" where
  "exports_inspect ev cid callback st =
     gated ev callback
       (\<lambda>st1. case engine st1 of
                None \<Rightarrow> (Threw (null_engine ''get''), st1)
              | Some e \<Rightarrow>
                  (let (container, st2) = call_out Engine ''get'' [cid] (engine_get e) st1
                   in engine_async ''inspect'' engine_inspect [container] callback st2)) st"

text \<open>Lines 186-194.\<close>

definition exports_create :: "env \<Rightarrow> jsval \<Rightarrow> jsval \<Rightarrow> state \<Rightarrow> outcome \<times> state" where
  "exports_create ev createOptions callback st =
     gated ev callback (engine_async ''create'' engine_create [createOptions] callback) st"

text \<open>
  Lines 203-215. Called as \<open>start(cid, callback)\<close>, the second argument is the function
  and the third is \<open>undefined\<close>; the two are then shifted.
\<close>

definition exports_start :: "env \<Rightarrow> jsval \<Rightarrow> jsval \<Rightarrow> jsval \<Rightarrow> state \<Rightarrow> outcome \<times> state" where
  "exports_start ev cid startOptions callback st =
     (let (startOptions', callback') =
            (if is_function startOptions \<and> callback = JUndefined then (JNull, startOptions)
             else (startOptions, callback))
      in gated ev callback' (engine_async ''start'' engine_start [cid, startOptions'] callback') st)"

text \<open>Lines 229-237.\<close>

definition exports_stop :: "env \<Rightarrow> jsval \<Rightarrow> jsval \<Rightarrow> state \<Rightarrow> outcome \<times> state" where
  "exports_stop ev cid callback st =
     gated ev callback (engine_async ''stop'' engine_stop [cid] callback) st"

text \<open>Lines 244-252.\<close>

definition exports_remove :: "env \<Rightarrow> jsval \<Rightarrow> jsval \<Rightarrow> state \<Rightarrow> outcome \<times> state" where
  "exports_remove ev cid callback st =
     gated ev callback (engine_async ''remove'' engine_remove [cid] callback) st"

text \<open>
  Lines 259-268, with \<open>img\<close> for the parameter \<open>image\<close>: \<open>var fn = (image.build) ? 'build' : 'pull'; engine[fn](image, callback)\<close>.
  \<open>engine_method\<close> is the property lookup \<open>engine[fn]\<close> among the asynchronous methods.
\<close>

definition engine_method :: "string \<Rightarrow> (engine_module \<Rightarrow> async_fn) option" where
  "engine_method fn =
     map_of
       [(''list'', engine_list), (''inspect'', engine_inspect), (''create'', engine_create),
        (''start'', engine_start), (''stop'', engine_stop), (''remove'', engine_remove),
        (''build'', engine_build), (''pull'', engine_pull)] fn"

definition exports_build :: "env \<Rightarrow> jsval \<Rightarrow> jsval \<Rightarrow> state \<Rightarrow> outcome \<times> state" where
  "exports_build ev img callback st =
     gated ev callback
       (\<lambda>st1. case get_prop img ''build'' of
                Inl x \<Rightarrow> (Threw x, st1)
              | Inr b \<Rightarrow>
                  (let fn = (if truthy b then ''build'' else ''pull'')
                   in case engine_method fn of
                        None \<Rightarrow> (Threw (JError (''TypeError: engine[fn] is not a function'')), st1)
                      | Some m \<Rightarrow> engine_async fn m [img] callback st1)) st"

subsection \<open>Sequences of calls\<close>

text \<open>A call of the public interface, and a process lifetime as a list of them.\<close>

datatype api_call =
    GetProviderName
  | IsUp jsval
  | Init globalConfig
  | Up jsval jsval
  | Down jsval jsval
  | List_op jsval jsval
  | Inspect jsval jsval
  | Create jsval jsval
  | Start jsval jsval jsval
  | Stop jsval jsval
  | Remove jsval jsval
  | Build jsval jsval

fun exec :: "env \<Rightarrow> api_call \<Rightarrow> state \<Rightarrow> outcome \<times> state" where
  "exec ev GetProviderName st = exports_getProviderName ev st"
| "exec ev (IsUp cb) st = exports_isUp ev cb st"
| "exec ev (Init cfg) st = exports_init ev cfg st"
| "exec ev (Up a cb) st = exports_up ev a cb st"
| "exec ev (Down a cb) st = exports_down ev a cb st"
| "exec ev (List_op n cb) st = exports_list ev n cb st"
| "exec ev (Inspect c cb) st = exports_inspect ev c cb st"
| "exec ev (Create opts cb) st = exports_create ev opts cb st"
| "exec ev (Start c opts cb) st = exports_start ev c opts cb st"
| "exec ev (Stop c cb) st = exports_stop ev c cb st"
| "exec ev (Remove c cb) st = exports_remove ev c cb st"
| "exec ev (Build i cb) st = exports_build ev i cb st"

text \<open>
  The module variables after a list of calls. A call that throws leaves the variables as
  they were at the throw, and the calls after it still run.
\<close>

fun run :: "env \<Rightarrow> api_call list \<Rightarrow> state \<Rightarrow> state" where
  "run ev [] st = st"
| "run ev (c # cs) st = run ev cs (snd (exec ev c st))"

subsection \<open>Reading the log and the readiness facts\<close>

text \<open>The calls of \<open>name\<close> on \<open>t\<close> in a log, whatever their arguments.\<close>

fun is_call :: "target \<Rightarrow> string \<Rightarrow> event \<Rightarrow> bool" where
  "is_call t n (Call t' n' args) = (t = t' \<and> n = n')"

definition calls_to :: "target \<Rightarrow> string \<Rightarrow> event list \<Rightarrow> event list" where
  "calls_to t n tr = filter (is_call t n) tr"

fun target_of :: "event \<Rightarrow> target" where
  "target_of (Call t n args) = t"

text \<open>What an operation that took the module from \<open>st\<close> to \<open>st'\<close> added to the log.\<close>

definition new_events :: "state \<Rightarrow> state \<Rightarrow> event list" where
  "new_events st st' = drop (length (trace st)) (trace st')"

text \<open>The three readiness facts: installed, up, initialized.\<close>

definition facts :: "state \<Rightarrow> bool \<times> bool \<times> bool" where
  "facts st = (isProviderInstalled st, isProviderUp st, engineHasBeenInit st)"

text \<open>The three queries of the gate, and the provider's answer to each when asked in \<open>st\<close>.\<close>

abbreviation isInstalled_query :: event where
  "isInstalled_query \<equiv> Call Provider ''isInstalled'' []"

abbreviation isUp_query :: event where
  "isUp_query \<equiv> Call Provider ''isUp'' []"

abbreviation engineConfig_query :: event where
  "engineConfig_query \<equiv> Call Provider ''engineConfig'' []"

abbreviation getName_call :: event where
  "getName_call \<equiv> Call Provider ''getName'' []"

abbreviation isInstalled_reply :: "provider_module \<Rightarrow> state \<Rightarrow> jsval list" where
  "isInstalled_reply p st \<equiv> provider_isInstalled p (trace st @ [isInstalled_query])"

abbreviation isUp_reply :: "provider_module \<Rightarrow> state \<Rightarrow> jsval list" where
  "isUp_reply p st \<equiv> provider_isUp p (trace st @ [isUp_query])"

abbreviation engineConfig_reply :: "provider_module \<Rightarrow> state \<Rightarrow> jsval list" where
  "engineConfig_reply p st \<equiv> provider_engineConfig p (trace st @ [engineConfig_query])"

text \<open>
  The state in which \<open>verifyProviderIsReady\<close> calls \<open>verifyProviderUp\<close>, and the one in
  which it looks at \<open>engineHasBeenInit\<close>.
\<close>

abbreviation after_installed :: "provider_module \<Rightarrow> state \<Rightarrow> state" where
  "after_installed p st \<equiv> snd (verifyProviderInstalled p st)"

abbreviation after_up :: "provider_module \<Rightarrow> state \<Rightarrow> state" where
  "after_up p st \<equiv> snd (verifyProviderUp p (after_installed p st))"

text \<open>The message of \<open>makeProviderError(msg)\<close> for a provider called \<open>name\<close>.\<close>

definition provider_message :: "string \<Rightarrow> string \<Rightarrow> string" where
  "provider_message name msg = ''Provider '' @ [CHR 0x22] @ name @ [CHR 0x22] @ '' '' @ msg"

text \<open>
  The ordering of the facts, and the fact that ties the backend handle to them: the
  engine is marked initialized only after \<open>engine.init\<close> ran on a handle.
\<close>

definition facts_ordered :: "state \<Rightarrow> bool" where
  "facts_ordered st =
     ((isProviderUp st \<longrightarrow> isProviderInstalled st) \<and> (engineHasBeenInit st \<longrightarrow> isProviderUp st))"

definition facts_kept :: "state \<Rightarrow> state \<Rightarrow> bool" where
  "facts_kept st st' =
     ((isProviderInstalled st \<longrightarrow> isProviderInstalled st') \<and>
      (isProviderUp st \<longrightarrow> isProviderUp st') \<and>
      (engineHasBeenInit st \<longrightarrow> engineHasBeenInit st'))"

definition handle_set :: "state \<Rightarrow> bool" where
  "handle_set st = (engineHasBeenInit st \<longrightarrow> engine st \<noteq> None)"

text \<open>The operations behind \<open>verifyProviderIsReady\<close>.\<close>

fun is_gated :: "api_call \<Rightarrow> bool" where
  "is_gated (List_op n cb) = True"
| "is_gated (Inspect c cb) = True"
| "is_gated (Create opts cb) = True"
| "is_gated (Start c opts cb) = True"
| "is_gated (Stop c cb) = True"
| "is_gated (Remove c cb) = True"
| "is_gated (Build i cb) = True"
| "is_gated c = False"

text \<open>
  The callback of a call: the function the operation calls back. \<open>exports.start\<close> takes
  it from its second argument when that is a function and the third is \<open>undefined\<close>;
  \<open>getProviderName\<close> and \<open>init\<close> have none.
\<close>

fun callback_of :: "api_call \<Rightarrow> jsval" where
  "callback_of GetProviderName = JUndefined"
| "callback_of (IsUp cb) = cb"
| "callback_of (Init cfg) = JUndefined"
| "callback_of (Up a cb) = cb"
| "callback_of (Down a cb) = cb"
| "callback_of (List_op n cb) = cb"
| "callback_of (Inspect c cb) = cb"
| "callback_of (Create opts cb) = cb"
| "callback_of (Start c opts cb) = (if is_function opts \<and> cb = JUndefined then opts else cb)"
| "callback_of (Stop c cb) = cb"
| "callback_of (Remove c cb) = cb"
| "callback_of (Build i cb) = cb"

text \<open>\<open>verifyProviderInstalled\<close> called \<open>n\<close> times in a row: the results and the last state.\<close>

fun verifyProviderInstalled_times :: "provider_module \<Rightarrow> nat \<Rightarrow> state \<Rightarrow> jsval list \<times> state" where
  "verifyProviderInstalled_times p 0 st = ([], st)"
| "verifyProviderInstalled_times p (Suc n) st =
     (let (r, st1) = verifyProviderInstalled p st;
          (rs, st2) = verifyProviderInstalled_times p n st1
      in (r # rs, st2))"

subsection \<open>Example environments\<close>

text \<open>
  A provider that answers each of the three queries with a fixed reply, and a backend
  whose \<open>create\<close> fails.
\<close>

definition fixed_provider :: "jsval list \<Rightarrow> jsval list \<Rightarrow> jsval list \<Rightarrow> provider_module" where
  "fixed_provider i u c =
     \<lparr>provider_getName = (\<lambda>tr. ''virtualbox''),
      provider_isInstalled = (\<lambda>tr. i),
      provider_isUp = (\<lambda>tr. u),
      provider_engineConfig = (\<lambda>tr. c),
      provider_up = (\<lambda>tr. [JNull]),
      provider_down = (\<lambda>tr. [JNull])\<rparr>"

definition docker :: engine_module where
  "docker =
     \<lparr>engine_getProviderModule = (\<lambda>tr. JStr ''b2d''),
      engine_init = (\<lambda>tr. JUndefined),
      engine_list = (\<lambda>tr. [JNull, JObject []]),
      engine_get = (\<lambda>tr. JObject [(''cid'', JStr ''c1'')]),
      engine_inspect = (\<lambda>tr. [JNull, JStr ''data'']),
      engine_create = (\<lambda>tr. [JError ''create failed'']),
      engine_start = (\<lambda>tr. [JNull]),
      engine_stop = (\<lambda>tr. [JNull]),
      engine_remove = (\<lambda>tr. [JNull]),
      engine_build = (\<lambda>tr. [JNull, JStr ''built'']),
      engine_pull = (\<lambda>tr. [JNull, JStr ''pulled''])\<rparr>"

definition env_with :: "provider_module \<Rightarrow> env" where
  "env_with p =
     \<lparr>provider = p,
      require = (\<lambda>path. if path = ''./engine/docker.js'' then Some docker else None)\<rparr>"

definition the_config :: jsval where
  "the_config = JObject [(''host'', JStr ''1.3.3.7'')]"

definition provider_ok :: provider_module where
  "provider_ok = fixed_provider [JNull, JBool True] [JNull, JBool True] [JNull, the_config]"

definition provider_absent :: provider_module where
  "provider_absent = fixed_provider [JNull, JBool False] [JNull, JBool True] [JNull, the_config]"

definition provider_no_config :: provider_module where
  "provider_no_config =
     fixed_provider [JNull, JBool True] [JNull, JBool True] [JError ''no config'']"

definition provider_isUp_fails :: provider_module where
  "provider_isUp_fails =
     fixed_provider [JNull, JBool True] [JError ''vm unreachable''] [JNull, the_config]"

definition provider_isInstalled_fails :: provider_module where
  "provider_isInstalled_fails =
     fixed_provider [JError ''which failed''] [JNull, JBool True] [JNull, the_config]"

text \<open>A provider whose \<open>isUp\<close> fails the first time it is asked and succeeds from then on.\<close>

definition provider_isUp_flaky :: provider_module where
  "provider_isUp_flaky =
     (fixed_provider [JNull, JBool True] [] [JNull, the_config])
       \<lparr>provider_isUp :=
          (\<lambda>tr. if length (calls_to Provider ''isUp'' tr) < 2 then [JError ''vm unreachable'']
                else [JNull, JBool True])\<rparr>"

text \<open>The module after \<open>exports.init\<close> loaded the backend \<open>docker\<close>, with an empty log.\<close>

definition loaded_state :: state where
  "loaded_state = initial_state\<lparr>engine := Some docker\<rparr>"

section \<open>Properties\<close>

subsection \<open>The log and single steps\<close>

lemma log_call_simps [simp]:
  "trace (log_call t n args st) = trace st @ [Call t n args]"
  "engine (log_call t n args st) = engine st"
  "isProviderInstalled (log_call t n args st) = isProviderInstalled st"
  "isProviderUp (log_call t n args st) = isProviderUp st"
  "engineHasBeenInit (log_call t n args st) = engineHasBeenInit st"
  by (simp_all add: log_call_def)

lemma call_out_eq [simp]:
  "call_out t n args f st = (f (trace st @ [Call t n args]), log_call t n args st)"
  by (simp add: call_out_def Let_def)

lemma facts_log_call [simp]: "facts (log_call t n args st) = facts st"
  by (simp add: facts_def)

lemma join_pair [simp]: "join sep [a, b] = a @ sep @ b"
  by simp

lemma makeProviderError_eq:
  "makeProviderError p msg st =
     (JError (provider_message (provider_getName p (trace st @ [getName_call])) msg),
      log_call Provider ''getName'' [] st)"
  by (simp add: makeProviderError_def provider_message_def)

text \<open>The four ways through \<open>verifyProviderInstalled\<close>.\<close>

lemma verifyProviderInstalled_cached:
  "isProviderInstalled st \<Longrightarrow> verifyProviderInstalled p st = (JNull, st)"
  by (simp add: verifyProviderInstalled_def)

lemma verifyProviderInstalled_error:
  assumes "\<not> isProviderInstalled st" and "truthy (arg 0 (isInstalled_reply p st))"
  shows "verifyProviderInstalled p st =
     (arg 0 (isInstalled_reply p st), log_call Provider ''isInstalled'' [] st)"
  using assms by (simp add: verifyProviderInstalled_def Let_def)

lemma verifyProviderInstalled_absent:
  assumes "\<not> isProviderInstalled st" and "\<not> truthy (arg 0 (isInstalled_reply p st))"
    and "\<not> truthy (arg 1 (isInstalled_reply p st))"
  shows "verifyProviderInstalled p st =
     makeProviderError p ''is NOT installed!'' (log_call Provider ''isInstalled'' [] st)"
  using assms by (simp add: verifyProviderInstalled_def Let_def)

lemma verifyProviderInstalled_present:
  assumes "\<not> isProviderInstalled st" and "\<not> truthy (arg 0 (isInstalled_reply p st))"
    and "truthy (arg 1 (isInstalled_reply p st))"
  shows "verifyProviderInstalled p st =
     (JNull, (log_call Provider ''isInstalled'' [] st)\<lparr>isProviderInstalled := True\<rparr>)"
  using assms by (simp add: verifyProviderInstalled_def Let_def)

lemma verifyProviderInstalled_cases:
  obtains (cached) "isProviderInstalled st" "verifyProviderInstalled p st = (JNull, st)"
  | (error) "\<not> isProviderInstalled st" "truthy (arg 0 (isInstalled_reply p st))"
      "verifyProviderInstalled p st =
        (arg 0 (isInstalled_reply p st), log_call Provider ''isInstalled'' [] st)"
  | (absent) "\<not> isProviderInstalled st" "\<not> truthy (arg 0 (isInstalled_reply p st))"
      "\<not> truthy (arg 1 (isInstalled_reply p st))"
      "verifyProviderInstalled p st =
        makeProviderError p ''is NOT installed!'' (log_call Provider ''isInstalled'' [] st)"
  | (present) "\<not> isProviderInstalled st" "\<not> truthy (arg 0 (isInstalled_reply p st))"
      "truthy (arg 1 (isInstalled_reply p st))"
      "verifyProviderInstalled p st =
        (JNull, (log_call Provider ''isInstalled'' [] st)\<lparr>isProviderInstalled := True\<rparr>)"
  using verifyProviderInstalled_cached verifyProviderInstalled_error
    verifyProviderInstalled_absent verifyProviderInstalled_present by blast

lemma verifyProviderInstalled_falsy:
  "(\<not> truthy (fst (verifyProviderInstalled p st))) = (fst (verifyProviderInstalled p st) = JNull)"
  by (cases rule: verifyProviderInstalled_cases [of st p]) (auto simp: makeProviderError_eq)

lemma verifyProviderInstalled_success:
  "fst (verifyProviderInstalled p st) = JNull \<Longrightarrow>
     isProviderInstalled (snd (verifyProviderInstalled p st))"
  by (cases rule: verifyProviderInstalled_cases [of st p]) (auto simp: makeProviderError_eq)

lemma verifyProviderInstalled_keeps:
  "engine (snd (verifyProviderInstalled p st)) = engine st"
  "isProviderUp (snd (verifyProviderInstalled p st)) = isProviderUp st"
  "engineHasBeenInit (snd (verifyProviderInstalled p st)) = engineHasBeenInit st"
  by (cases rule: verifyProviderInstalled_cases [of st p]; simp add: makeProviderError_eq)+

lemma verifyProviderInstalled_mono:
  "isProviderInstalled st \<Longrightarrow> isProviderInstalled (snd (verifyProviderInstalled p st))"
  by (simp add: verifyProviderInstalled_cached)

lemma verifyProviderInstalled_trace:
  "\<exists>evs. trace (snd (verifyProviderInstalled p st)) = trace st @ evs \<and>
     set evs \<subseteq> {isInstalled_query, getName_call}"
  by (cases rule: verifyProviderInstalled_cases [of st p]) (auto simp: makeProviderError_eq)

text \<open>The same for \<open>verifyProviderUp\<close>.\<close>

lemma verifyProviderUp_cached:
  "isProviderUp st \<Longrightarrow> verifyProviderUp p st = (JNull, st)"
  by (simp add: verifyProviderUp_def)

lemma verifyProviderUp_error:
  assumes "\<not> isProviderUp st" and "truthy (arg 0 (isUp_reply p st))"
  shows "verifyProviderUp p st = (arg 0 (isUp_reply p st), log_call Provider ''isUp'' [] st)"
  using assms by (simp add: verifyProviderUp_def Let_def)

lemma verifyProviderUp_absent:
  assumes "\<not> isProviderUp st" and "\<not> truthy (arg 0 (isUp_reply p st))"
    and "\<not> truthy (arg 1 (isUp_reply p st))"
  shows "verifyProviderUp p st =
     makeProviderError p ''is NOT up!'' (log_call Provider ''isUp'' [] st)"
  using assms by (simp add: verifyProviderUp_def Let_def)

lemma verifyProviderUp_present:
  assumes "\<not> isProviderUp st" and "\<not> truthy (arg 0 (isUp_reply p st))"
    and "truthy (arg 1 (isUp_reply p st))"
  shows "verifyProviderUp p st =
     (JNull, (log_call Provider ''isUp'' [] st)\<lparr>isProviderUp := True\<rparr>)"
  using assms by (simp add: verifyProviderUp_def Let_def)

lemma verifyProviderUp_cases:
  obtains (cached) "isProviderUp st" "verifyProviderUp p st = (JNull, st)"
  | (error) "\<not> isProviderUp st" "truthy (arg 0 (isUp_reply p st))"
      "verifyProviderUp p st = (arg 0 (isUp_reply p st), log_call Provider ''isUp'' [] st)"
  | (absent) "\<not> isProviderUp st" "\<not> truthy (arg 0 (isUp_reply p st))"
      "\<not> truthy (arg 1 (isUp_reply p st))"
      "verifyProviderUp p st =
        makeProviderError p ''is NOT up!'' (log_call Provider ''isUp'' [] st)"
  | (present) "\<not> isProviderUp st" "\<not> truthy (arg 0 (isUp_reply p st))"
      "truthy (arg 1 (isUp_reply p st))"
      "verifyProviderUp p st =
        (JNull, (log_call Provider ''isUp'' [] st)\<lparr>isProviderUp := True\<rparr>)"
  using verifyProviderUp_cached verifyProviderUp_error
    verifyProviderUp_absent verifyProviderUp_present by blast

lemma verifyProviderUp_falsy:
  "(\<not> truthy (fst (verifyProviderUp p st))) = (fst (verifyProviderUp p st) = JNull)"
  by (cases rule: verifyProviderUp_cases [of st p]) (auto simp: makeProviderError_eq)

lemma verifyProviderUp_success:
  "fst (verifyProviderUp p st) = JNull \<Longrightarrow> isProviderUp (snd (verifyProviderUp p st))"
  by (cases rule: verifyProviderUp_cases [of st p]) (auto simp: makeProviderError_eq)

lemma verifyProviderUp_keeps:
  "engine (snd (verifyProviderUp p st)) = engine st"
  "isProviderInstalled (snd (verifyProviderUp p st)) = isProviderInstalled st"
  "engineHasBeenInit (snd (verifyProviderUp p st)) = engineHasBeenInit st"
  by (cases rule: verifyProviderUp_cases [of st p]; simp add: makeProviderError_eq)+

lemma verifyProviderUp_mono:
  "isProviderUp st \<Longrightarrow> isProviderUp (snd (verifyProviderUp p st))"
  by (simp add: verifyProviderUp_cached)

lemma verifyProviderUp_trace:
  "\<exists>evs. trace (snd (verifyProviderUp p st)) = trace st @ evs \<and>
     set evs \<subseteq> {isUp_query, getName_call}"
  by (cases rule: verifyProviderUp_cases [of st p]) (auto simp: makeProviderError_eq)

text \<open>The six ways through \<open>verifyProviderIsReady\<close>.\<close>

lemma verifyProviderIsReady_installed_fails:
  assumes "truthy (fst (verifyProviderInstalled (provider ev) st))"
  shows "verifyProviderIsReady ev st =
     (CalledBack (fst (verifyProviderInstalled (provider ev) st)), after_installed (provider ev) st)"
  using assms by (simp add: verifyProviderIsReady_def split_def Let_def)

lemma verifyProviderIsReady_up_fails:
  assumes "fst (verifyProviderInstalled (provider ev) st) = JNull"
    and "truthy (fst (verifyProviderUp (provider ev) (after_installed (provider ev) st)))"
  shows "verifyProviderIsReady ev st =
     (CalledBack (fst (verifyProviderUp (provider ev) (after_installed (provider ev) st))),
      after_up (provider ev) st)"
  using assms by (simp add: verifyProviderIsReady_def split_def Let_def)

lemma verifyProviderIsReady_cached:
  assumes "fst (verifyProviderInstalled (provider ev) st) = JNull"
    and "fst (verifyProviderUp (provider ev) (after_installed (provider ev) st)) = JNull"
    and "engineHasBeenInit st"
  shows "verifyProviderIsReady ev st = (CalledBack JNull, after_up (provider ev) st)"
  using assms
  by (simp add: verifyProviderIsReady_def split_def verifyProviderUp_keeps
      verifyProviderInstalled_keeps)

lemma verifyProviderIsReady_config_fails:
  assumes "fst (verifyProviderInstalled (provider ev) st) = JNull"
    and "fst (verifyProviderUp (provider ev) (after_installed (provider ev) st)) = JNull"
    and "\<not> engineHasBeenInit st"
    and "truthy (arg 0 (engineConfig_reply (provider ev) (after_up (provider ev) st)))"
  shows "verifyProviderIsReady ev st =
     (CalledBack (arg 0 (engineConfig_reply (provider ev) (after_up (provider ev) st))),
      log_call Provider ''engineConfig'' [] (after_up (provider ev) st))"
  using assms
  by (simp add: verifyProviderIsReady_def split_def Let_def verifyProviderUp_keeps
      verifyProviderInstalled_keeps)

lemma verifyProviderIsReady_null_engine:
  assumes "fst (verifyProviderInstalled (provider ev) st) = JNull"
    and "fst (verifyProviderUp (provider ev) (after_installed (provider ev) st)) = JNull"
    and "\<not> engineHasBeenInit st"
    and "\<not> truthy (arg 0 (engineConfig_reply (provider ev) (after_up (provider ev) st)))"
    and "engine st = None"
  shows "verifyProviderIsReady ev st =
     (Raised (null_engine ''init''),
      log_call Provider ''engineConfig'' [] (after_up (provider ev) st))"
  using assms
  by (simp add: verifyProviderIsReady_def split_def Let_def verifyProviderUp_keeps
      verifyProviderInstalled_keeps)

lemma verifyProviderIsReady_init:
  assumes "fst (verifyProviderInstalled (provider ev) st) = JNull"
    and "fst (verifyProviderUp (provider ev) (after_installed (provider ev) st)) = JNull"
    and "\<not> engineHasBeenInit st"
    and "\<not> truthy (arg 0 (engineConfig_reply (provider ev) (after_up (provider ev) st)))"
    and "engine st = Some e"
  shows "verifyProviderIsReady ev st =
     (CalledBack JNull,
      (log_call Engine ''init'' [arg 1 (engineConfig_reply (provider ev) (after_up (provider ev) st))]
         (log_call Provider ''engineConfig'' [] (after_up (provider ev) st)))
       \<lparr>engineHasBeenInit := True\<rparr>)"
  using assms
  by (simp add: verifyProviderIsReady_def split_def Let_def verifyProviderUp_keeps
      verifyProviderInstalled_keeps)

lemma verifyProviderIsReady_cases:
  obtains (installed_fails) "truthy (fst (verifyProviderInstalled (provider ev) st))"
  | (up_fails) "fst (verifyProviderInstalled (provider ev) st) = JNull"
      "truthy (fst (verifyProviderUp (provider ev) (after_installed (provider ev) st)))"
  | (cached) "fst (verifyProviderInstalled (provider ev) st) = JNull"
      "fst (verifyProviderUp (provider ev) (after_installed (provider ev) st)) = JNull"
      "engineHasBeenInit st"
  | (config_fails) "fst (verifyProviderInstalled (provider ev) st) = JNull"
      "fst (verifyProviderUp (provider ev) (after_installed (provider ev) st)) = JNull"
      "\<not> engineHasBeenInit st"
      "truthy (arg 0 (engineConfig_reply (provider ev) (after_up (provider ev) st)))"
  | (null_engine) "fst (verifyProviderInstalled (provider ev) st) = JNull"
      "fst (verifyProviderUp (provider ev) (after_installed (provider ev) st)) = JNull"
      "\<not> engineHasBeenInit st"
      "\<not> truthy (arg 0 (engineConfig_reply (provider ev) (after_up (provider ev) st)))"
      "engine st = None"
  | (init) e where "fst (verifyProviderInstalled (provider ev) st) = JNull"
      "fst (verifyProviderUp (provider ev) (after_installed (provider ev) st)) = JNull"
      "\<not> engineHasBeenInit st"
      "\<not> truthy (arg 0 (engineConfig_reply (provider ev) (after_up (provider ev) st)))"
      "engine st = Some e"
  using verifyProviderInstalled_falsy [of "provider ev" st]
    verifyProviderUp_falsy [of "provider ev" "after_installed (provider ev) st"]
  by (cases "engine st") blast+

text \<open>What \<open>verifyProviderIsReady\<close> adds to the log starts where the two checks stopped.\<close>

lemma after_up_trace:
  "\<exists>evs. trace (after_up p st) = trace st @ evs \<and>
     set evs \<subseteq> {isInstalled_query, isUp_query, getName_call}"
proof -
  obtain evs1 where 1: "trace (after_installed p st) = trace st @ evs1"
    "set evs1 \<subseteq> {isInstalled_query, getName_call}"
    using verifyProviderInstalled_trace by blast
  obtain evs2 where 2: "trace (after_up p st) = trace (after_installed p st) @ evs2"
    "set evs2 \<subseteq> {isUp_query, getName_call}"
    using verifyProviderUp_trace by blast
  from 1 2 have "trace (after_up p st) = trace st @ (evs1 @ evs2)"
    "set (evs1 @ evs2) \<subseteq> {isInstalled_query, isUp_query, getName_call}"
    by auto
  then show ?thesis by blast
qed

subsection \<open>\<open>exports.up\<close> and \<open>exports.down\<close>\<close>

lemmas example_defs =
  env_with_def fixed_provider_def docker_def provider_ok_def provider_absent_def
  provider_no_config_def provider_isUp_fails_def provider_isInstalled_fails_def
  provider_isUp_flaky_def
  loaded_state_def initial_state_def the_config_def

lemmas run_defs =
  verifyProviderInstalled_def verifyProviderUp_def verifyProviderIsReady_def
  makeProviderError_def gated_def engine_async_def invoke_def arg_def Let_def split_def
  calls_to_def new_events_def

lemma exports_up_ok:
  assumes "fst (verifyProviderInstalled (provider ev) st) = JNull"
  shows "exports_up ev attempts callback st =
     (invoke callback
        (provider_up (provider ev)
           (trace (after_installed (provider ev) st) @ [Call Provider ''up'' [callback]])),
      log_call Provider ''up'' [callback] (after_installed (provider ev) st))"
  using assms by (simp add: exports_up_def split_def Let_def)

lemma exports_down_ok:
  assumes "fst (verifyProviderInstalled (provider ev) st) = JNull"
  shows "exports_down ev attempts callback st =
     (invoke callback
        (provider_down (provider ev)
           (trace (after_installed (provider ev) st) @ [Call Provider ''down'' [callback]])),
      log_call Provider ''down'' [callback] (after_installed (provider ev) st))"
  using assms by (simp add: exports_down_def split_def Let_def)

text \<open>
  C1, as the code has it. Once \<open>verifyProviderInstalled\<close> has succeeded, \<open>exports.up\<close>
  (\<open>exports.down\<close>) calls \<open>up\<close> (\<open>down\<close>) of the provider with the caller's callback, which
  receives the provider's answer; neither operation calls the backend engine.
\<close>

theorem up_down_delegate_to_provider:
  assumes "fst (verifyProviderInstalled (provider ev) st) = JNull"
  shows "exports_up ev attempts callback st =
           (invoke callback
              (provider_up (provider ev)
                 (trace (after_installed (provider ev) st) @ [Call Provider ''up'' [callback]])),
            log_call Provider ''up'' [callback] (after_installed (provider ev) st)) \<and>
         exports_down ev attempts callback st =
           (invoke callback
              (provider_down (provider ev)
                 (trace (after_installed (provider ev) st) @ [Call Provider ''down'' [callback]])),
            log_call Provider ''down'' [callback] (after_installed (provider ev) st)) \<and>
         filter (\<lambda>e. target_of e = Engine)
           (new_events st (snd (exports_up ev attempts callback st))) = [] \<and>
         filter (\<lambda>e. target_of e = Engine)
           (new_events st (snd (exports_down ev attempts callback st))) = []"
proof -
  have "filter (\<lambda>e. target_of e = Engine)
          (new_events st (log_call Provider n [callback] (after_installed (provider ev) st))) = []"
    for n
  proof -
    obtain evs where "trace (after_installed (provider ev) st) = trace st @ evs"
      "set evs \<subseteq> {isInstalled_query, getName_call}"
      using verifyProviderInstalled_trace by blast
    then show ?thesis
      by (auto simp: new_events_def filter_empty_conv)
  qed
  then show ?thesis
    using assms by (simp add: exports_up_ok exports_down_ok)
qed

theorem up_down_delegate_to_provider_witness:
  "fst (verifyProviderInstalled (provider (env_with provider_ok)) loaded_state) = JNull \<and>
   fst (exports_up (env_with provider_ok) (JNum 3) (JFunction 0) loaded_state) =
     Invoked (JFunction 0) [JNull] \<and>
   trace (snd (exports_up (env_with provider_ok) (JNum 3) (JFunction 0) loaded_state)) =
     [isInstalled_query, Call Provider ''up'' [JFunction 0]] \<and>
   trace (snd (exports_down (env_with provider_ok) (JNum 3) (JFunction 0) loaded_state)) =
     [isInstalled_query, Call Provider ''down'' [JFunction 0]]"
proof -
  have ok: "fst (verifyProviderInstalled (provider (env_with provider_ok)) loaded_state) = JNull"
    by (simp add: example_defs run_defs)
  show ?thesis
    using ok up_down_delegate_to_provider [OF ok, of "JNum 3" "JFunction 0"]
    by (simp add: example_defs run_defs)
qed

text \<open>
  C1, as the specification has it, fails: with the backend \<open>docker\<close> loaded and the
  provider installed, \<open>exports.up\<close> and \<open>exports.down\<close> make no call to the backend's \<open>up\<close>
  or \<open>down\<close>; the call goes to the provider.
\<close>

theorem up_down_backend_counterexample:
  "fst (verifyProviderInstalled (provider (env_with provider_ok)) loaded_state) = JNull \<and>
   engine loaded_state = Some docker \<and>
   calls_to Engine ''up''
     (trace (snd (exports_up (env_with provider_ok) (JNum 3) (JFunction 0) loaded_state))) = [] \<and>
   calls_to Provider ''up''
     (trace (snd (exports_up (env_with provider_ok) (JNum 3) (JFunction 0) loaded_state))) =
     [Call Provider ''up'' [JFunction 0]] \<and>
   calls_to Engine ''down''
     (trace (snd (exports_down (env_with provider_ok) (JNum 3) (JFunction 0) loaded_state))) = [] \<and>
   calls_to Provider ''down''
     (trace (snd (exports_down (env_with provider_ok) (JNum 3) (JFunction 0) loaded_state))) =
     [Call Provider ''down'' [JFunction 0]]"
  by (simp add: example_defs run_defs exports_up_def exports_down_def)

text \<open>
  C6. While the installed fact is not cached, a provider that answers \<open>isInstalled\<close> with
  \<open>(null, false)\<close> makes \<open>exports.up\<close> call back with the error
  \<open>Provider "<name>" is NOT installed!\<close>, \<open><name>\<close> being what \<open>getName\<close> returns, and the
  provider's \<open>up\<close> is not called.
\<close>

theorem up_not_installed:
  assumes "\<not> isProviderInstalled st"
    and "isInstalled_reply (provider ev) st = [JNull, JBool False]"
  shows "exports_up ev attempts callback st =
           (invoke callback
              [JError (''Provider '' @ [CHR 0x22] @
                 provider_getName (provider ev) (trace st @ [isInstalled_query, getName_call]) @
                 [CHR 0x22] @ '' is NOT installed!'')],
            log_call Provider ''getName'' [] (log_call Provider ''isInstalled'' [] st)) \<and>
         new_events st (snd (exports_up ev attempts callback st)) =
           [isInstalled_query, getName_call]"
proof -
  have "verifyProviderInstalled (provider ev) st =
          makeProviderError (provider ev) ''is NOT installed!''
            (log_call Provider ''isInstalled'' [] st)"
    using assms by (intro verifyProviderInstalled_absent) (simp_all add: arg_def)
  then show ?thesis
    by (simp add: exports_up_def makeProviderError_eq provider_message_def new_events_def)
qed

theorem up_not_installed_witness:
  "\<not> isProviderInstalled initial_state \<and>
   isInstalled_reply (provider (env_with provider_absent)) initial_state = [JNull, JBool False] \<and>
   exports_up (env_with provider_absent) (JNum 3) (JFunction 0) initial_state =
     (Invoked (JFunction 0) [JError (''Provider '' @ [CHR 0x22] @ ''virtualbox'' @ [CHR 0x22] @ '' is NOT installed!'')],
      initial_state\<lparr>trace := [isInstalled_query, getName_call]\<rparr>)"
proof -
  have 1: "\<not> isProviderInstalled initial_state"
    by (simp add: initial_state_def)
  have 2: "isInstalled_reply (provider (env_with provider_absent)) initial_state =
      [JNull, JBool False]"
    by (simp add: example_defs)
  show ?thesis
    using 1 2 up_not_installed [OF 1 2, of "JNum 3" "JFunction 0"]
    by (simp add: example_defs invoke_def log_call_def)
qed

text \<open>
  C10. \<open>exports.up\<close> and \<open>exports.down\<close> never read \<open>attempts\<close>: two calls that differ in
  it only make the same calls and give the callback the same arguments.
\<close>

theorem attempts_not_read:
  "exports_up ev a1 callback st = exports_up ev a2 callback st \<and>
   exports_down ev a1 callback st = exports_down ev a2 callback st"
  by (simp add: exports_up_def exports_down_def)

subsection \<open>The order of the checks in \<open>verifyProviderIsReady\<close>\<close>

lemma new_events_after_installed:
  "set (new_events st (after_installed p st)) \<subseteq> {isInstalled_query, getName_call}"
proof -
  obtain evs where "trace (after_installed p st) = trace st @ evs"
    "set evs \<subseteq> {isInstalled_query, getName_call}"
    using verifyProviderInstalled_trace by blast
  then show ?thesis by (simp add: new_events_def)
qed

lemma new_events_after_up:
  "set (new_events st (after_up p st)) \<subseteq> {isInstalled_query, isUp_query, getName_call}"
proof -
  obtain evs where "trace (after_up p st) = trace st @ evs"
    "set evs \<subseteq> {isInstalled_query, isUp_query, getName_call}"
    using after_up_trace by blast
  then show ?thesis by (simp add: new_events_def)
qed

lemma no_engineConfig_in_checks:
  assumes "set evs \<subseteq> {isInstalled_query, isUp_query, getName_call}"
  shows "calls_to Provider ''engineConfig'' evs = []"
  using assms by (auto simp: calls_to_def filter_empty_conv)

lemma no_engineConfig_after_installed:
  "calls_to Provider ''engineConfig'' (new_events st (after_installed p st)) = []"
  using new_events_after_installed [of st p]
  by (intro no_engineConfig_in_checks) auto

lemma no_engineConfig_after_up:
  "calls_to Provider ''engineConfig'' (new_events st (after_up p st)) = []"
  using new_events_after_up [of st p] by (intro no_engineConfig_in_checks)

lemma engineConfig_needs_both_checks:
  assumes "calls_to Provider ''engineConfig'' (new_events st (snd (verifyProviderIsReady ev st))) \<noteq> []"
  shows "fst (verifyProviderInstalled (provider ev) st) = JNull \<and>
         fst (verifyProviderUp (provider ev) (after_installed (provider ev) st)) = JNull \<and>
         (\<exists>rest. trace (snd (verifyProviderIsReady ev st)) =
            trace (after_up (provider ev) st) @ engineConfig_query # rest)"
proof (cases rule: verifyProviderIsReady_cases [of ev st])
  case installed_fails
  then show ?thesis
    using assms
    by (simp add: verifyProviderIsReady_installed_fails no_engineConfig_after_installed)
next
  case up_fails
  then show ?thesis
    using assms by (simp add: verifyProviderIsReady_up_fails no_engineConfig_after_up)
next
  case cached
  then show ?thesis
    using assms by (simp add: verifyProviderIsReady_cached no_engineConfig_after_up)
next
  case config_fails
  then show ?thesis by (simp add: verifyProviderIsReady_config_fails)
next
  case null_engine
  then show ?thesis by (simp add: verifyProviderIsReady_null_engine)
next
  case (init e)
  then show ?thesis by (simp add: verifyProviderIsReady_init)
qed

lemma not_installed_fails_fast:
  assumes "\<not> isProviderInstalled st"
    and "\<not> truthy (arg 0 (isInstalled_reply (provider ev) st))"
    and "\<not> truthy (arg 1 (isInstalled_reply (provider ev) st))"
  shows "verifyProviderIsReady ev st =
     (CalledBack
        (JError (provider_message
           (provider_getName (provider ev) (trace st @ [isInstalled_query, getName_call]))
           ''is NOT installed!'')),
      log_call Provider ''getName'' [] (log_call Provider ''isInstalled'' [] st))"
proof -
  have "verifyProviderInstalled (provider ev) st =
          makeProviderError (provider ev) ''is NOT installed!''
            (log_call Provider ''isInstalled'' [] st)"
    using assms by (rule verifyProviderInstalled_absent)
  then show ?thesis
    by (simp add: verifyProviderIsReady_installed_fails makeProviderError_eq)
qed

text \<open>
  C2. In any run of \<open>verifyProviderIsReady\<close> that calls the provider's \<open>engineConfig\<close>,
  \<open>verifyProviderInstalled\<close> and then \<open>verifyProviderUp\<close> have called back with \<open>null\<close>, and
  the call to \<open>engineConfig\<close> follows everything the two logged. When the provider is asked
  and reports not installed, the run calls back with the error made for that, and asks
  neither \<open>isUp\<close> nor \<open>engineConfig\<close>.
\<close>

theorem verifyReady_order_and_fail_fast:
  "(calls_to Provider ''engineConfig'' (new_events st (snd (verifyProviderIsReady ev st))) \<noteq> [] \<longrightarrow>
      fst (verifyProviderInstalled (provider ev) st) = JNull \<and>
      fst (verifyProviderUp (provider ev) (after_installed (provider ev) st)) = JNull \<and>
      (\<exists>rest. trace (snd (verifyProviderIsReady ev st)) =
         trace (after_up (provider ev) st) @ engineConfig_query # rest)) \<and>
   (\<not> isProviderInstalled st \<and>
    \<not> truthy (arg 0 (isInstalled_reply (provider ev) st)) \<and>
    \<not> truthy (arg 1 (isInstalled_reply (provider ev) st)) \<longrightarrow>
      fst (verifyProviderIsReady ev st) =
        CalledBack
          (JError (provider_message
             (provider_getName (provider ev) (trace st @ [isInstalled_query, getName_call]))
             ''is NOT installed!'')) \<and>
      new_events st (snd (verifyProviderIsReady ev st)) = [isInstalled_query, getName_call] \<and>
      calls_to Provider ''isUp'' (new_events st (snd (verifyProviderIsReady ev st))) = [] \<and>
      calls_to Provider ''engineConfig'' (new_events st (snd (verifyProviderIsReady ev st))) = [])"
proof (intro conjI impI)
  assume "calls_to Provider ''engineConfig''
            (new_events st (snd (verifyProviderIsReady ev st))) \<noteq> []"
  note * = engineConfig_needs_both_checks [OF this]
  from * show "fst (verifyProviderInstalled (provider ev) st) = JNull" by blast
  from * show "fst (verifyProviderUp (provider ev) (after_installed (provider ev) st)) = JNull"
    by blast
  from * show "\<exists>rest. trace (snd (verifyProviderIsReady ev st)) =
      trace (after_up (provider ev) st) @ engineConfig_query # rest" by blast
next
  assume a: "\<not> isProviderInstalled st \<and>
    \<not> truthy (arg 0 (isInstalled_reply (provider ev) st)) \<and>
    \<not> truthy (arg 1 (isInstalled_reply (provider ev) st))"
  then have eq: "verifyProviderIsReady ev st =
     (CalledBack
        (JError (provider_message
           (provider_getName (provider ev) (trace st @ [isInstalled_query, getName_call]))
           ''is NOT installed!'')),
      log_call Provider ''getName'' [] (log_call Provider ''isInstalled'' [] st))"
    by (intro not_installed_fails_fast) simp_all
  show "fst (verifyProviderIsReady ev st) =
        CalledBack
          (JError (provider_message
             (provider_getName (provider ev) (trace st @ [isInstalled_query, getName_call]))
             ''is NOT installed!''))"
    by (simp add: eq)
  show ne: "new_events st (snd (verifyProviderIsReady ev st)) = [isInstalled_query, getName_call]"
    by (simp add: eq new_events_def)
  show "calls_to Provider ''isUp'' (new_events st (snd (verifyProviderIsReady ev st))) = []"
    by (simp add: ne calls_to_def)
  show "calls_to Provider ''engineConfig'' (new_events st (snd (verifyProviderIsReady ev st))) = []"
    by (simp add: ne calls_to_def)
qed

theorem verifyReady_order_and_fail_fast_witness:
  "calls_to Provider ''engineConfig''
      (new_events loaded_state (snd (verifyProviderIsReady (env_with provider_ok) loaded_state))) \<noteq> [] \<and>
   fst (verifyProviderInstalled (provider (env_with provider_ok)) loaded_state) = JNull \<and>
   fst (verifyProviderUp (provider (env_with provider_ok))
          (after_installed (provider (env_with provider_ok)) loaded_state)) = JNull \<and>
   trace (snd (verifyProviderIsReady (env_with provider_ok) loaded_state)) =
     [isInstalled_query, isUp_query, engineConfig_query, Call Engine ''init'' [the_config]] \<and>
   \<not> isProviderInstalled initial_state \<and>
   \<not> truthy (arg 0 (isInstalled_reply (provider (env_with provider_absent)) initial_state)) \<and>
   \<not> truthy (arg 1 (isInstalled_reply (provider (env_with provider_absent)) initial_state)) \<and>
   fst (verifyProviderIsReady (env_with provider_absent) initial_state) =
     CalledBack (JError (provider_message ''virtualbox'' ''is NOT installed!'')) \<and>
   new_events initial_state (snd (verifyProviderIsReady (env_with provider_absent) initial_state)) =
     [isInstalled_query, getName_call]"
proof -
  have 1: "calls_to Provider ''engineConfig''
      (new_events loaded_state (snd (verifyProviderIsReady (env_with provider_ok) loaded_state))) \<noteq> []"
    by (simp add: example_defs run_defs)
  have 2: "\<not> isProviderInstalled initial_state \<and>
   \<not> truthy (arg 0 (isInstalled_reply (provider (env_with provider_absent)) initial_state)) \<and>
   \<not> truthy (arg 1 (isInstalled_reply (provider (env_with provider_absent)) initial_state))"
    by (simp add: example_defs arg_def)
  have 3: "trace (snd (verifyProviderIsReady (env_with provider_ok) loaded_state)) =
     [isInstalled_query, isUp_query, engineConfig_query, Call Engine ''init'' [the_config]]"
    by (simp add: example_defs run_defs)
  show ?thesis
    using 1 2 3
      verifyReady_order_and_fail_fast [of loaded_state "env_with provider_ok"]
      verifyReady_order_and_fail_fast [of initial_state "env_with provider_absent"]
    by (simp add: example_defs)
qed

subsection \<open>The frame of the gated operations\<close>

lemma gated_fails:
  assumes "verifyProviderIsReady ev st = (CalledBack err, st1)" and "truthy err"
  shows "gated ev callback body st = (invoke callback [err], st1)"
  using assms by (simp add: gated_def)

lemma gated_ok:
  assumes "verifyProviderIsReady ev st = (CalledBack err, st1)" and "\<not> truthy err"
  shows "gated ev callback body st = body st1"
  using assms by (simp add: gated_def)

lemma gated_raised:
  assumes "verifyProviderIsReady ev st = (Raised x, st1)"
  shows "gated ev callback body st = (Threw x, st1)"
  using assms by (simp add: gated_def)

lemma engine_async_eq:
  assumes "engine st = Some e"
  shows "engine_async name m args callback st =
     (invoke callback (m e (trace st @ [Call Engine name (args @ [callback])])),
      log_call Engine name (args @ [callback]) st)"
  using assms by (simp add: engine_async_def)

lemma trace_after_up_length: "length (trace st) \<le> length (trace (after_up p st))"
  using after_up_trace [of p st] by auto

lemma new_events_log_call:
  assumes "length (trace st) \<le> length (trace st')"
  shows "new_events st (log_call t n args st') = new_events st st' @ [Call t n args]"
  using assms by (simp add: new_events_def)

lemma new_events_self [simp]: "new_events st st = []"
  by (simp add: new_events_def)

subsection \<open>Caching\<close>

lemma verifyProviderInstalled_times_cached:
  "isProviderInstalled st \<Longrightarrow> verifyProviderInstalled_times p n st = (replicate n JNull, st)"
  by (induction n) (simp_all add: verifyProviderInstalled_cached)

lemma verifyProviderIsReady_all_cached:
  assumes "isProviderInstalled st" and "isProviderUp st" and "engineHasBeenInit st"
  shows "verifyProviderIsReady ev st = (CalledBack JNull, st)"
  using assms
  by (simp add: verifyProviderIsReady_def verifyProviderInstalled_cached verifyProviderUp_cached)

lemma always_installed_success:
  assumes "\<forall>tr. \<not> truthy (arg 0 (provider_isInstalled p tr)) \<and> truthy (arg 1 (provider_isInstalled p tr))"
  shows "fst (verifyProviderInstalled p st) = JNull"
  using assms by (cases rule: verifyProviderInstalled_cases [of st p]) auto

lemma always_up_success:
  assumes "\<forall>tr. \<not> truthy (arg 0 (provider_isUp p tr)) \<and> truthy (arg 1 (provider_isUp p tr))"
  shows "fst (verifyProviderUp p st) = JNull"
  using assms by (cases rule: verifyProviderUp_cases [of st p]) auto

lemma calls_to_checks:
  assumes "set evs \<subseteq> {isInstalled_query, isUp_query, getName_call}"
  shows "calls_to Provider ''engineConfig'' evs = []" and "calls_to Engine ''init'' evs = []"
  using assms by (auto simp: calls_to_def filter_empty_conv)

text \<open>The first run of the gate that gets through, on a working provider.\<close>

lemma first_gate_run:
  assumes inst: "\<forall>tr. \<not> truthy (arg 0 (provider_isInstalled (provider ev) tr)) \<and>
                       truthy (arg 1 (provider_isInstalled (provider ev) tr))"
    and up: "\<forall>tr. \<not> truthy (arg 0 (provider_isUp (provider ev) tr)) \<and>
                   truthy (arg 1 (provider_isUp (provider ev) tr))"
    and cfg: "\<forall>tr. \<not> truthy (arg 0 (provider_engineConfig (provider ev) tr))"
    and fresh: "\<not> engineHasBeenInit st"
    and handle: "engine st = Some e"
  shows "verifyProviderIsReady ev st =
     (CalledBack JNull,
      (log_call Engine ''init'' [arg 1 (engineConfig_reply (provider ev) (after_up (provider ev) st))]
         (log_call Provider ''engineConfig'' [] (after_up (provider ev) st)))
       \<lparr>engineHasBeenInit := True\<rparr>)"
  by (rule verifyProviderIsReady_init)
    (simp_all add: always_installed_success [OF inst] always_up_success [OF up] cfg fresh handle)

text \<open>
  C3. On a provider that always reports installed, \<open>n \<ge> 1\<close> calls of
  \<open>verifyProviderInstalled\<close> in a row, the fact not cached before, all call back with
  \<open>null\<close> and together ask \<open>isInstalled\<close> once: the state after them is the state after the
  first, and a further call changes nothing. On a provider that also always reports up
  and always delivers a configuration, the first \<open>exports.list\<close> on a loaded backend that
  is not yet initialized asks \<open>engineConfig\<close> once and calls \<open>engine.init\<close> once, on that
  configuration; the \<open>exports.list\<close> after it calls \<open>engine.list\<close> and nothing else.
\<close>

theorem checks_are_cached:
  assumes inst: "\<forall>tr. \<not> truthy (arg 0 (provider_isInstalled (provider ev) tr)) \<and>
                       truthy (arg 1 (provider_isInstalled (provider ev) tr))"
  shows "(\<not> isProviderInstalled st \<and> 1 \<le> n \<longrightarrow>
            verifyProviderInstalled_times (provider ev) n st =
              (replicate n JNull,
               (log_call Provider ''isInstalled'' [] st)\<lparr>isProviderInstalled := True\<rparr>) \<and>
            calls_to Provider ''isInstalled''
              (new_events st (snd (verifyProviderInstalled_times (provider ev) n st))) =
              [isInstalled_query] \<and>
            verifyProviderInstalled (provider ev)
              (snd (verifyProviderInstalled_times (provider ev) n st)) =
              (JNull, snd (verifyProviderInstalled_times (provider ev) n st))) \<and>
         ((\<forall>tr. \<not> truthy (arg 0 (provider_isUp (provider ev) tr)) \<and>
                 truthy (arg 1 (provider_isUp (provider ev) tr))) \<and>
          (\<forall>tr. \<not> truthy (arg 0 (provider_engineConfig (provider ev) tr))) \<and>
          \<not> engineHasBeenInit st \<and> engine st = Some e \<longrightarrow>
            calls_to Provider ''engineConfig''
              (new_events st (snd (exports_list ev appName callback st))) = [engineConfig_query] \<and>
            calls_to Engine ''init''
              (new_events st (snd (exports_list ev appName callback st))) =
              [Call Engine ''init''
                 [arg 1 (engineConfig_reply (provider ev) (after_up (provider ev) st))]] \<and>
            fst (exports_list ev appName callback st) =
              invoke callback
                (engine_list e (trace (snd (exports_list ev appName callback st)))) \<and>
            new_events (snd (exports_list ev appName callback st))
              (snd (exports_list ev appName' callback' (snd (exports_list ev appName callback st)))) =
              [Call Engine ''list'' [appName', callback']])"
proof (intro conjI impI)
  assume a: "\<not> isProviderInstalled st \<and> 1 \<le> n"
  then obtain m where n: "n = Suc m" by (cases n) auto
  have first: "verifyProviderInstalled (provider ev) st =
      (JNull, (log_call Provider ''isInstalled'' [] st)\<lparr>isProviderInstalled := True\<rparr>)"
    using a inst by (intro verifyProviderInstalled_present) simp_all
  show times: "verifyProviderInstalled_times (provider ev) n st =
      (replicate n JNull, (log_call Provider ''isInstalled'' [] st)\<lparr>isProviderInstalled := True\<rparr>)"
    by (simp add: n first verifyProviderInstalled_times_cached)
  show "calls_to Provider ''isInstalled''
      (new_events st (snd (verifyProviderInstalled_times (provider ev) n st))) = [isInstalled_query]"
    by (simp add: times new_events_def calls_to_def)
  show "verifyProviderInstalled (provider ev)
      (snd (verifyProviderInstalled_times (provider ev) n st)) =
      (JNull, snd (verifyProviderInstalled_times (provider ev) n st))"
    by (simp add: times verifyProviderInstalled_cached)
next
  assume b: "(\<forall>tr. \<not> truthy (arg 0 (provider_isUp (provider ev) tr)) \<and>
                 truthy (arg 1 (provider_isUp (provider ev) tr))) \<and>
          (\<forall>tr. \<not> truthy (arg 0 (provider_engineConfig (provider ev) tr))) \<and>
          \<not> engineHasBeenInit st \<and> engine st = Some e"
  let ?p = "provider ev"
  define cfg where "cfg = arg 1 (engineConfig_reply ?p (after_up ?p st))"
  define st1 where "st1 = (log_call Engine ''init'' [cfg]
      (log_call Provider ''engineConfig'' [] (after_up ?p st)))\<lparr>engineHasBeenInit := True\<rparr>"
  define st2 where "st2 = log_call Engine ''list'' [appName, callback] st1"
  from b have up: "\<forall>tr. \<not> truthy (arg 0 (provider_isUp ?p tr)) \<and> truthy (arg 1 (provider_isUp ?p tr))"
    by blast
  have gate: "verifyProviderIsReady ev st = (CalledBack JNull, st1)"
    unfolding st1_def cfg_def using inst b by (intro first_gate_run) simp_all
  have handle: "engine st1 = Some e"
    using b by (simp add: st1_def verifyProviderUp_keeps verifyProviderInstalled_keeps)
  have list1: "exports_list ev appName callback st =
      (invoke callback (engine_list e (trace st2)), st2)"
    by (simp add: exports_list_def gated_ok [OF gate] engine_async_eq [OF handle] st2_def)
  have inst1: "isProviderInstalled (after_installed ?p st)"
    by (rule verifyProviderInstalled_success) (rule always_installed_success [OF inst])
  have up1: "isProviderUp (after_up ?p st)"
    by (rule verifyProviderUp_success) (rule always_up_success [OF up])
  have cached: "isProviderInstalled st2" "isProviderUp st2" "engineHasBeenInit st2"
    using inst1 up1 by (simp_all add: st2_def st1_def verifyProviderUp_keeps)
  have gate2: "verifyProviderIsReady ev st2 = (CalledBack JNull, st2)"
    using cached by (rule verifyProviderIsReady_all_cached)
  have handle2: "engine st2 = Some e"
    using handle by (simp add: st2_def)
  have list2: "exports_list ev appName' callback' st2 =
      (invoke callback' (engine_list e (trace st2 @ [Call Engine ''list'' [appName', callback']])),
       log_call Engine ''list'' [appName', callback'] st2)"
    by (simp add: exports_list_def gated_ok [OF gate2] engine_async_eq [OF handle2])
  obtain evs where evs: "trace (after_up ?p st) = trace st @ evs"
    "set evs \<subseteq> {isInstalled_query, isUp_query, getName_call}"
    using after_up_trace by blast
  have new: "new_events st st2 =
      evs @ [engineConfig_query, Call Engine ''init'' [cfg], Call Engine ''list'' [appName, callback]]"
    by (simp add: new_events_def evs(1) st2_def st1_def)
  show "calls_to Provider ''engineConfig''
      (new_events st (snd (exports_list ev appName callback st))) = [engineConfig_query]"
    using calls_to_checks(1) [OF evs(2)] by (simp add: list1 new calls_to_def)
  show "calls_to Engine ''init'' (new_events st (snd (exports_list ev appName callback st))) =
      [Call Engine ''init''
         [arg 1 (engineConfig_reply (provider ev) (after_up (provider ev) st))]]"
    using calls_to_checks(2) [OF evs(2)] by (simp add: list1 new calls_to_def cfg_def)
  show "fst (exports_list ev appName callback st) =
      invoke callback (engine_list e (trace (snd (exports_list ev appName callback st))))"
    by (simp add: list1)
  show "new_events (snd (exports_list ev appName callback st))
      (snd (exports_list ev appName' callback' (snd (exports_list ev appName callback st)))) =
      [Call Engine ''list'' [appName', callback']]"
    by (simp add: list1 list2 new_events_def)
qed

theorem checks_are_cached_witness:
  "(\<forall>tr. \<not> truthy (arg 0 (provider_isInstalled (provider (env_with provider_ok)) tr)) \<and>
         truthy (arg 1 (provider_isInstalled (provider (env_with provider_ok)) tr))) \<and>
   (\<forall>tr. \<not> truthy (arg 0 (provider_isUp (provider (env_with provider_ok)) tr)) \<and>
         truthy (arg 1 (provider_isUp (provider (env_with provider_ok)) tr))) \<and>
   (\<forall>tr. \<not> truthy (arg 0 (provider_engineConfig (provider (env_with provider_ok)) tr))) \<and>
   \<not> isProviderInstalled loaded_state \<and> (1::nat) \<le> 3 \<and>
   \<not> engineHasBeenInit loaded_state \<and> engine loaded_state = Some docker \<and>
   fst (verifyProviderInstalled_times (provider (env_with provider_ok)) 3 loaded_state) =
     [JNull, JNull, JNull] \<and>
   trace (snd (verifyProviderInstalled_times (provider (env_with provider_ok)) 3 loaded_state)) =
     [isInstalled_query] \<and>
   new_events loaded_state
     (snd (exports_list (env_with provider_ok) (JStr ''app'') (JFunction 0) loaded_state)) =
     [isInstalled_query, isUp_query, engineConfig_query, Call Engine ''init'' [the_config],
      Call Engine ''list'' [JStr ''app'', JFunction 0]] \<and>
   new_events
     (snd (exports_list (env_with provider_ok) (JStr ''app'') (JFunction 0) loaded_state))
     (snd (exports_list (env_with provider_ok) (JStr ''web'') (JFunction 1)
        (snd (exports_list (env_with provider_ok) (JStr ''app'') (JFunction 0) loaded_state)))) =
     [Call Engine ''list'' [JStr ''web'', JFunction 1]]"
proof -
  have inst: "\<forall>tr. \<not> truthy (arg 0 (provider_isInstalled (provider (env_with provider_ok)) tr)) \<and>
         truthy (arg 1 (provider_isInstalled (provider (env_with provider_ok)) tr))"
    by (simp add: example_defs arg_def)
  have rest: "(\<forall>tr. \<not> truthy (arg 0 (provider_isUp (provider (env_with provider_ok)) tr)) \<and>
         truthy (arg 1 (provider_isUp (provider (env_with provider_ok)) tr))) \<and>
   (\<forall>tr. \<not> truthy (arg 0 (provider_engineConfig (provider (env_with provider_ok)) tr))) \<and>
   \<not> isProviderInstalled loaded_state \<and> (1::nat) \<le> 3 \<and>
   \<not> engineHasBeenInit loaded_state \<and> engine loaded_state = Some docker"
    by (simp add: example_defs arg_def)
  have first: "new_events loaded_state
     (snd (exports_list (env_with provider_ok) (JStr ''app'') (JFunction 0) loaded_state)) =
     [isInstalled_query, isUp_query, engineConfig_query, Call Engine ''init'' [the_config],
      Call Engine ''list'' [JStr ''app'', JFunction 0]]"
    by (simp add: exports_list_def example_defs run_defs)
  show ?thesis
    using inst rest first
      checks_are_cached [OF inst, of loaded_state 3 docker "JStr ''app''" "JFunction 0"
        "JStr ''web''" "JFunction 1"]
    by (simp add: example_defs log_call_def numeral_3_eq_3)
qed

subsection \<open>The readiness facts over a process lifetime\<close>

lemma facts_kept_refl [simp]: "facts_kept st st"
  by (simp add: facts_kept_def)

lemma facts_kept_trans: "facts_kept a b \<Longrightarrow> facts_kept b c \<Longrightarrow> facts_kept a c"
  by (simp add: facts_kept_def)

lemma facts_eq_ordered: "facts st' = facts st \<Longrightarrow> facts_ordered st' = facts_ordered st"
  by (simp add: facts_def facts_ordered_def)

lemma facts_eq_handle:
  "facts st' = facts st \<Longrightarrow> engine st' = engine st \<Longrightarrow> handle_set st' = handle_set st"
  by (simp add: facts_def handle_set_def)

text \<open>What \<open>verifyProviderIsReady\<close> does to the module variables.\<close>

lemma verifyProviderIsReady_engine:
  "engine (snd (verifyProviderIsReady ev st)) = engine st"
  by (cases rule: verifyProviderIsReady_cases [of ev st])
    (simp_all add: verifyProviderIsReady_installed_fails verifyProviderIsReady_up_fails
      verifyProviderIsReady_cached verifyProviderIsReady_config_fails
      verifyProviderIsReady_null_engine verifyProviderIsReady_init
      verifyProviderInstalled_keeps verifyProviderUp_keeps)

lemma verifyProviderIsReady_kept:
  "facts_kept st (snd (verifyProviderIsReady ev st))"
  by (cases rule: verifyProviderIsReady_cases [of ev st])
    (simp_all add: verifyProviderIsReady_installed_fails verifyProviderIsReady_up_fails
      verifyProviderIsReady_cached verifyProviderIsReady_config_fails
      verifyProviderIsReady_null_engine verifyProviderIsReady_init
      verifyProviderInstalled_keeps verifyProviderUp_keeps facts_kept_def
      verifyProviderInstalled_mono verifyProviderUp_mono)

lemma after_installed_ordered:
  assumes "facts_ordered st"
  shows "facts_ordered (after_installed p st)"
  using assms verifyProviderInstalled_mono [of st p]
  by (auto simp: facts_ordered_def verifyProviderInstalled_keeps)

lemma after_up_ordered:
  assumes "facts_ordered st" and "isProviderInstalled (after_installed p st)"
  shows "facts_ordered (after_up p st)"
  using assms after_installed_ordered [OF assms(1), of p]
    verifyProviderUp_mono [of "after_installed p st" p]
  by (auto simp: facts_ordered_def verifyProviderUp_keeps)

lemma verifyProviderIsReady_ordered:
  assumes "facts_ordered st"
  shows "facts_ordered (snd (verifyProviderIsReady ev st))"
proof (cases rule: verifyProviderIsReady_cases [of ev st])
  case installed_fails
  then show ?thesis
    using assms
    by (simp add: verifyProviderIsReady_installed_fails after_installed_ordered)
next
  case up_fails
  then show ?thesis
    using assms verifyProviderInstalled_success [of "provider ev" st]
    by (simp add: verifyProviderIsReady_up_fails after_up_ordered)
next
  case cached
  then show ?thesis
    using assms verifyProviderInstalled_success [of "provider ev" st]
    by (simp add: verifyProviderIsReady_cached after_up_ordered)
next
  case config_fails
  then show ?thesis
    using after_up_ordered [OF assms, of "provider ev"]
      verifyProviderInstalled_success [of "provider ev" st]
    by (simp add: verifyProviderIsReady_config_fails facts_ordered_def)
next
  case null_engine
  then show ?thesis
    using after_up_ordered [OF assms, of "provider ev"]
      verifyProviderInstalled_success [of "provider ev" st]
    by (simp add: verifyProviderIsReady_null_engine facts_ordered_def)
next
  case (init e)
  then show ?thesis
    using verifyProviderInstalled_success [of "provider ev" st]
      verifyProviderUp_success [of "provider ev" "after_installed (provider ev) st"]
    by (simp add: verifyProviderIsReady_init facts_ordered_def verifyProviderUp_keeps)
qed

lemma verifyProviderIsReady_handle:
  assumes "handle_set st"
  shows "handle_set (snd (verifyProviderIsReady ev st))"
  using assms
  by (cases rule: verifyProviderIsReady_cases [of ev st])
    (simp_all add: verifyProviderIsReady_installed_fails verifyProviderIsReady_up_fails
      verifyProviderIsReady_cached verifyProviderIsReady_config_fails
      verifyProviderIsReady_null_engine verifyProviderIsReady_init
      verifyProviderInstalled_keeps verifyProviderUp_keeps handle_set_def)

text \<open>After the gate, a gated operation only adds to the log.\<close>

lemma engine_async_vars:
  "facts (snd (engine_async name m args callback st)) = facts st"
  "engine (snd (engine_async name m args callback st)) = engine st"
  by (simp_all add: engine_async_def split: option.split)

lemma gated_vars:
  assumes "\<And>st1. facts (snd (body st1)) = facts st1"
    and "\<And>st1. engine (snd (body st1)) = engine st1"
  shows "facts (snd (gated ev callback body st)) = facts (snd (verifyProviderIsReady ev st))"
    and "engine (snd (gated ev callback body st)) = engine st"
  using assms verifyProviderIsReady_engine [of ev st]
  by (auto simp: gated_def split: prod.split verdict.split)

lemma inspect_body_vars:
  "facts (snd (case engine st1 of
      None \<Rightarrow> (Threw (null_engine ''get''), st1)
    | Some e \<Rightarrow>
        (let (container, st2) = call_out Engine ''get'' [cid] (engine_get e) st1
         in engine_async ''inspect'' engine_inspect [container] callback st2))) = facts st1"
  "engine (snd (case engine st1 of
      None \<Rightarrow> (Threw (null_engine ''get''), st1)
    | Some e \<Rightarrow>
        (let (container, st2) = call_out Engine ''get'' [cid] (engine_get e) st1
         in engine_async ''inspect'' engine_inspect [container] callback st2))) = engine st1"
  by (simp_all add: engine_async_vars split: option.split)

lemma build_body_vars:
  "facts (snd (case get_prop img ''build'' of
      Inl x \<Rightarrow> (Threw x, st1)
    | Inr b \<Rightarrow>
        (let fn = (if truthy b then ''build'' else ''pull'')
         in case engine_method fn of
              None \<Rightarrow> (Threw (JError (''TypeError: engine[fn] is not a function'')), st1)
            | Some m \<Rightarrow> engine_async fn m [img] callback st1))) = facts st1"
  "engine (snd (case get_prop img ''build'' of
      Inl x \<Rightarrow> (Threw x, st1)
    | Inr b \<Rightarrow>
        (let fn = (if truthy b then ''build'' else ''pull'')
         in case engine_method fn of
              None \<Rightarrow> (Threw (JError (''TypeError: engine[fn] is not a function'')), st1)
            | Some m \<Rightarrow> engine_async fn m [img] callback st1))) = engine st1"
  by (simp_all add: engine_async_vars Let_def split: sum.split option.split)

lemma gated_exec_vars:
  assumes "is_gated c"
  shows "facts (snd (exec ev c st)) = facts (snd (verifyProviderIsReady ev st))"
    and "engine (snd (exec ev c st)) = engine st"
  using assms
  by (cases c;
      simp add: exports_list_def exports_inspect_def exports_create_def exports_start_def
        exports_stop_def exports_remove_def exports_build_def gated_vars engine_async_vars
        inspect_body_vars build_body_vars split_def Let_def)+

lemma ungated_exec_vars:
  assumes "\<not> is_gated c"
  shows "facts_kept st (snd (exec ev c st))"
    and "facts_ordered st \<Longrightarrow> facts_ordered (snd (exec ev c st))"
    and "handle_set st \<Longrightarrow> handle_set (snd (exec ev c st))"
    and "engine st \<noteq> None \<Longrightarrow> engine (snd (exec ev c st)) \<noteq> None"
proof -
  have inst: "facts_kept st (after_installed (provider ev) st)"
    using verifyProviderInstalled_mono [of st "provider ev"]
    by (simp add: facts_kept_def verifyProviderInstalled_keeps)
  have hs: "handle_set (after_installed (provider ev) st) = handle_set st"
    by (simp add: handle_set_def verifyProviderInstalled_keeps)
  show "facts_kept st (snd (exec ev c st))"
    using assms inst
    by (cases c)
      (simp_all add: exports_getProviderName_def exports_isUp_def exports_init_def
        exports_up_def exports_down_def split_def Let_def facts_kept_def
        split: option.split)
  show "facts_ordered (snd (exec ev c st))" if "facts_ordered st"
    using assms that after_installed_ordered [OF that, of "provider ev"]
    by (cases c)
      (simp_all add: exports_getProviderName_def exports_isUp_def exports_init_def
        exports_up_def exports_down_def split_def Let_def facts_ordered_def
        split: option.split)
  show "handle_set (snd (exec ev c st))" if "handle_set st"
    using assms that hs
    by (cases c)
      (auto simp: exports_getProviderName_def exports_isUp_def exports_init_def
        exports_up_def exports_down_def split_def Let_def handle_set_def
        split: option.split)
  show "engine (snd (exec ev c st)) \<noteq> None" if "engine st \<noteq> None"
    using assms that
    by (cases c)
      (simp_all add: exports_getProviderName_def exports_isUp_def exports_init_def
        exports_up_def exports_down_def split_def Let_def verifyProviderInstalled_keeps
        split: option.split)
qed

lemma exec_facts_kept: "facts_kept st (snd (exec ev c st))"
proof (cases "is_gated c")
  case True
  then show ?thesis
    using verifyProviderIsReady_kept [of st ev] gated_exec_vars(1) [OF True, of ev st]
    by (simp add: facts_kept_def facts_def)
next
  case False
  then show ?thesis by (rule ungated_exec_vars)
qed

lemma exec_facts_ordered:
  assumes "facts_ordered st"
  shows "facts_ordered (snd (exec ev c st))"
proof (cases "is_gated c")
  case True
  then show ?thesis
    using verifyProviderIsReady_ordered [OF assms, of ev]
    by (simp add: facts_eq_ordered [OF gated_exec_vars(1) [OF True]])
next
  case False
  then show ?thesis using assms by (rule ungated_exec_vars)
qed

lemma exec_handle_set:
  assumes "handle_set st"
  shows "handle_set (snd (exec ev c st))"
proof (cases "is_gated c")
  case True
  have "handle_set (snd (exec ev c st)) = handle_set (snd (verifyProviderIsReady ev st))"
    by (rule facts_eq_handle)
      (simp_all add: gated_exec_vars [OF True] verifyProviderIsReady_engine)
  then show ?thesis
    using verifyProviderIsReady_handle [OF assms, of ev] by simp
next
  case False
  then show ?thesis using assms by (rule ungated_exec_vars)
qed

lemma exec_engine_kept:
  assumes "engine st \<noteq> None"
  shows "engine (snd (exec ev c st)) \<noteq> None"
proof (cases "is_gated c")
  case True
  then show ?thesis using assms by (simp add: gated_exec_vars)
next
  case False
  then show ?thesis using assms by (rule ungated_exec_vars)
qed

lemma run_append: "run ev (cs @ cs') st = run ev cs' (run ev cs st)"
  by (induction cs arbitrary: st) simp_all

lemma run_facts_kept: "facts_kept st (run ev cs st)"
proof (induction cs arbitrary: st)
  case Nil
  show ?case by simp
next
  case (Cons c cs)
  show ?case
    using exec_facts_kept [of st ev c] Cons.IH [of "snd (exec ev c st)"]
    by (auto intro: facts_kept_trans)
qed

lemma run_facts_ordered: "facts_ordered st \<Longrightarrow> facts_ordered (run ev cs st)"
  by (induction cs arbitrary: st) (simp_all add: exec_facts_ordered)

lemma run_handle_set: "handle_set st \<Longrightarrow> handle_set (run ev cs st)"
  by (induction cs arbitrary: st) (simp_all add: exec_handle_set)

lemma run_engine_kept: "engine st \<noteq> None \<Longrightarrow> engine (run ev cs st) \<noteq> None"
proof (induction cs arbitrary: st)
  case Nil
  then show ?case by simp
next
  case (Cons c cs)
  show ?case
    using Cons.IH [OF exec_engine_kept [OF Cons.prems, of ev c]] by simp
qed

lemma initial_state_ordered: "facts_ordered initial_state" "handle_set initial_state"
  by (simp_all add: facts_ordered_def handle_set_def initial_state_def)

text \<open>
  C4. Every public operation keeps the ordering of the facts (up only with installed,
  initialized only with up) and never turns a fact from true to false. So every state
  a process reaches from the module as loaded has the ordering, and a fact that is true
  after some calls is true after any further calls.
\<close>

theorem facts_invariant:
  "(facts_ordered st \<longrightarrow> facts_ordered (snd (exec ev c st))) \<and>
   facts_kept st (snd (exec ev c st)) \<and>
   facts_ordered (run ev cs initial_state) \<and>
   facts_kept (run ev cs initial_state) (run ev (cs @ cs') initial_state)"
  by (simp add: exec_facts_ordered exec_facts_kept run_facts_ordered initial_state_ordered
      run_append run_facts_kept)

theorem facts_invariant_witness:
  "facts_ordered loaded_state \<and>
   facts (snd (exec (env_with provider_ok) (List_op (JStr ''app'') (JFunction 0)) loaded_state)) =
     (True, True, True) \<and>
   facts (run (env_with provider_ok)
            [Init \<lparr>config_engine = ''docker''\<rparr>, List_op (JStr ''app'') (JFunction 0)]
            initial_state) = (True, True, True) \<and>
   facts (run (env_with provider_ok)
            ([Init \<lparr>config_engine = ''docker''\<rparr>, List_op (JStr ''app'') (JFunction 0)] @
             [Down (JNum 1) (JFunction 1)])
            initial_state) = (True, True, True)"
proof -
  have 1: "facts_ordered loaded_state"
    by (simp add: facts_ordered_def example_defs)
  have 2: "facts (run (env_with provider_ok)
            [Init \<lparr>config_engine = ''docker''\<rparr>, List_op (JStr ''app'') (JFunction 0)]
            initial_state) = (True, True, True)"
    by (simp add: facts_def exports_init_def exports_list_def example_defs run_defs log_call_def)
  have 3: "facts (snd (exec (env_with provider_ok) (List_op (JStr ''app'') (JFunction 0)) loaded_state)) =
     (True, True, True)"
    by (simp add: facts_def exports_list_def example_defs run_defs log_call_def)
  show ?thesis
    using 1 2 3
      facts_invariant [of loaded_state "env_with provider_ok"
        "List_op (JStr ''app'') (JFunction 0)"
        "[Init \<lparr>config_engine = ''docker''\<rparr>, List_op (JStr ''app'') (JFunction 0)]"
        "[Down (JNum 1) (JFunction 1)]"]
    by (auto simp: facts_def facts_kept_def)
qed

subsection \<open>Gate errors and backend results reach the caller as they are\<close>

lemma gate_success_facts:
  assumes "verifyProviderIsReady ev st = (CalledBack err, st1)" and "\<not> truthy err"
  shows "isProviderInstalled st1 \<and> isProviderUp st1 \<and> engineHasBeenInit st1"
proof (cases rule: verifyProviderIsReady_cases [of ev st])
  case installed_fails
  then show ?thesis
    using assms by (simp add: verifyProviderIsReady_installed_fails)
next
  case up_fails
  then show ?thesis
    using assms by (simp add: verifyProviderIsReady_up_fails)
next
  case cached
  then show ?thesis
    using assms verifyProviderInstalled_success [of "provider ev" st]
      verifyProviderUp_success [of "provider ev" "after_installed (provider ev) st"]
    by (auto simp: verifyProviderIsReady_cached verifyProviderUp_keeps
        verifyProviderInstalled_keeps)
next
  case config_fails
  then show ?thesis
    using assms by (simp add: verifyProviderIsReady_config_fails)
next
  case null_engine
  then show ?thesis
    using assms by (simp add: verifyProviderIsReady_null_engine)
next
  case (init e)
  then show ?thesis
    using assms verifyProviderInstalled_success [of "provider ev" st]
      verifyProviderUp_success [of "provider ev" "after_installed (provider ev) st"]
    by (auto simp: verifyProviderIsReady_init verifyProviderUp_keeps)
qed

lemma gate_success_handle:
  assumes "verifyProviderIsReady ev st = (CalledBack err, st1)" and "\<not> truthy err"
    and "handle_set st"
  shows "\<exists>e. engine st1 = Some e"
proof -
  have "handle_set st1"
    using verifyProviderIsReady_handle [OF assms(3), of ev] assms(1) by simp
  then show ?thesis
    using gate_success_facts [OF assms(1,2)] by (auto simp: handle_set_def)
qed

lemma no_engine_events:
  assumes "set evs \<subseteq> {isInstalled_query, isUp_query, engineConfig_query, getName_call}"
  shows "filter (\<lambda>e. target_of e = Engine) evs = []"
  using assms by (auto simp: filter_empty_conv)

lemma gate_failure_no_engine:
  assumes "verifyProviderIsReady ev st = (CalledBack err, st1)" and "truthy err"
  shows "filter (\<lambda>e. target_of e = Engine) (new_events st st1) = []"
proof -
  have 1: "set (new_events st (after_installed (provider ev) st)) \<subseteq>
      {isInstalled_query, isUp_query, engineConfig_query, getName_call}"
    using new_events_after_installed [of st "provider ev"] by auto
  have 2: "set (new_events st (after_up (provider ev) st)) \<subseteq>
      {isInstalled_query, isUp_query, engineConfig_query, getName_call}"
    using new_events_after_up [of st "provider ev"] by auto
  have 3: "set (new_events st (log_call Provider ''engineConfig'' [] (after_up (provider ev) st))) \<subseteq>
      {isInstalled_query, isUp_query, engineConfig_query, getName_call}"
    using 2 by (simp add: new_events_log_call [OF trace_after_up_length])
  show ?thesis
  proof (cases rule: verifyProviderIsReady_cases [of ev st])
    case installed_fails
    then show ?thesis
      using assms no_engine_events [OF 1] by (simp add: verifyProviderIsReady_installed_fails)
  next
    case up_fails
    then show ?thesis
      using assms no_engine_events [OF 2] by (simp add: verifyProviderIsReady_up_fails)
  next
    case cached
    then show ?thesis
      using assms by (simp add: verifyProviderIsReady_cached)
  next
    case config_fails
    then show ?thesis
      using assms no_engine_events [OF 3] by (simp add: verifyProviderIsReady_config_fails)
  next
    case null_engine
    then show ?thesis
      using assms by (simp add: verifyProviderIsReady_null_engine)
  next
    case (init e)
    then show ?thesis
      using assms by (simp add: verifyProviderIsReady_init)
  qed
qed

lemma engine_method_simps [simp]:
  "engine_method ''build'' = Some engine_build"
  "engine_method ''pull'' = Some engine_pull"
  by (simp_all add: engine_method_def)

lemma exports_build_ok:
  assumes "verifyProviderIsReady ev st = (CalledBack err, st1)" and "\<not> truthy err"
    and "engine st1 = Some e" and "get_prop img ''build'' = Inr b"
  shows "exports_build ev img callback st =
     (if truthy b
      then (invoke callback (engine_build e (trace st1 @ [Call Engine ''build'' [img, callback]])),
            log_call Engine ''build'' [img, callback] st1)
      else (invoke callback (engine_pull e (trace st1 @ [Call Engine ''pull'' [img, callback]])),
            log_call Engine ''pull'' [img, callback] st1))"
  using assms(3,4)
  by (simp add: exports_build_def gated_ok [OF assms(1,2)] engine_async_def Let_def)

text \<open>
  C5. For each of \<open>list\<close>, \<open>inspect\<close>, \<open>create\<close>, \<open>start\<close>, \<open>stop\<close>, \<open>remove\<close> and
  \<open>build\<close>: when \<open>verifyProviderIsReady\<close> calls back with an error, the caller's callback
  gets exactly that error, the module is left as the gate left it, and the gate made
  no call to the backend; when it calls back with \<open>null\<close>, the callback gets exactly the
  arguments the backend answers with. The backend handle is there whenever the gate
  succeeds in a state with \<open>handle_set\<close>, which every reachable state has.
\<close>

theorem gate_pass_through:
  assumes "verifyProviderIsReady ev st = (CalledBack err, st1)" and "handle_set st"
  shows "(truthy err \<longrightarrow>
            exports_list ev appName callback st = (invoke callback [err], st1) \<and>
            exports_inspect ev cid callback st = (invoke callback [err], st1) \<and>
            exports_create ev createOptions callback st = (invoke callback [err], st1) \<and>
            exports_start ev cid startOptions callback st =
              (invoke (if is_function startOptions \<and> callback = JUndefined
                       then startOptions else callback) [err], st1) \<and>
            exports_stop ev cid callback st = (invoke callback [err], st1) \<and>
            exports_remove ev cid callback st = (invoke callback [err], st1) \<and>
            exports_build ev img callback st = (invoke callback [err], st1) \<and>
            filter (\<lambda>e. target_of e = Engine) (new_events st st1) = []) \<and>
         (\<not> truthy err \<longrightarrow>
            (\<exists>e. engine st1 = Some e \<and>
              exports_list ev appName callback st =
                (invoke callback
                   (engine_list e (trace st1 @ [Call Engine ''list'' [appName, callback]])),
                 log_call Engine ''list'' [appName, callback] st1) \<and>
              exports_inspect ev cid callback st =
                (invoke callback
                   (engine_inspect e
                      (trace st1 @
                       [Call Engine ''get'' [cid],
                        Call Engine ''inspect''
                          [engine_get e (trace st1 @ [Call Engine ''get'' [cid]]), callback]])),
                 log_call Engine ''inspect''
                   [engine_get e (trace st1 @ [Call Engine ''get'' [cid]]), callback]
                   (log_call Engine ''get'' [cid] st1)) \<and>
              exports_create ev createOptions callback st =
                (invoke callback
                   (engine_create e (trace st1 @ [Call Engine ''create'' [createOptions, callback]])),
                 log_call Engine ''create'' [createOptions, callback] st1) \<and>
              exports_start ev cid startOptions callback st =
                (if is_function startOptions \<and> callback = JUndefined
                 then (invoke startOptions
                         (engine_start e
                            (trace st1 @ [Call Engine ''start'' [cid, JNull, startOptions]])),
                       log_call Engine ''start'' [cid, JNull, startOptions] st1)
                 else (invoke callback
                         (engine_start e
                            (trace st1 @ [Call Engine ''start'' [cid, startOptions, callback]])),
                       log_call Engine ''start'' [cid, startOptions, callback] st1)) \<and>
              exports_stop ev cid callback st =
                (invoke callback
                   (engine_stop e (trace st1 @ [Call Engine ''stop'' [cid, callback]])),
                 log_call Engine ''stop'' [cid, callback] st1) \<and>
              exports_remove ev cid callback st =
                (invoke callback
                   (engine_remove e (trace st1 @ [Call Engine ''remove'' [cid, callback]])),
                 log_call Engine ''remove'' [cid, callback] st1) \<and>
              exports_build ev (JObject fs) callback st =
                (if truthy (case map_of fs ''build'' of Some x \<Rightarrow> x | None \<Rightarrow> JUndefined)
                 then (invoke callback
                         (engine_build e
                            (trace st1 @ [Call Engine ''build'' [JObject fs, callback]])),
                       log_call Engine ''build'' [JObject fs, callback] st1)
                 else (invoke callback
                         (engine_pull e
                            (trace st1 @ [Call Engine ''pull'' [JObject fs, callback]])),
                       log_call Engine ''pull'' [JObject fs, callback] st1)))) \<and>
         handle_set (run ev cs initial_state)"
proof (intro conjI impI)
  show "handle_set (run ev cs initial_state)"
    by (simp add: run_handle_set initial_state_ordered)
next
  assume t: "truthy err"
  note fails = gated_fails [OF assms(1) t]
  show "exports_list ev appName callback st = (invoke callback [err], st1)"
    by (simp add: exports_list_def fails)
  show "exports_inspect ev cid callback st = (invoke callback [err], st1)"
    by (simp add: exports_inspect_def fails)
  show "exports_create ev createOptions callback st = (invoke callback [err], st1)"
    by (simp add: exports_create_def fails)
  show "exports_start ev cid startOptions callback st =
      (invoke (if is_function startOptions \<and> callback = JUndefined
               then startOptions else callback) [err], st1)"
    by (simp add: exports_start_def fails)
  show "exports_stop ev cid callback st = (invoke callback [err], st1)"
    by (simp add: exports_stop_def fails)
  show "exports_remove ev cid callback st = (invoke callback [err], st1)"
    by (simp add: exports_remove_def fails)
  show "exports_build ev img callback st = (invoke callback [err], st1)"
    by (simp add: exports_build_def fails)
  show "filter (\<lambda>e. target_of e = Engine) (new_events st st1) = []"
    by (rule gate_failure_no_engine [OF assms(1) t])
next
  assume f: "\<not> truthy err"
  obtain e where e: "engine st1 = Some e"
    using gate_success_handle [OF assms(1) f assms(2)] by blast
  note ok = gated_ok [OF assms(1) f]
  have e': "engine (log_call Engine ''get'' [cid] st1) = Some e"
    using e by simp
  have marker: "get_prop (JObject fs) ''build'' =
      Inr (case map_of fs ''build'' of Some x \<Rightarrow> x | None \<Rightarrow> JUndefined)"
    by (simp add: get_prop_def split: option.split)
  have "exports_list ev appName callback st =
      (invoke callback (engine_list e (trace st1 @ [Call Engine ''list'' [appName, callback]])),
       log_call Engine ''list'' [appName, callback] st1)"
    by (simp add: exports_list_def ok engine_async_eq [OF e])
  moreover have "exports_inspect ev cid callback st =
      (invoke callback
         (engine_inspect e
            (trace st1 @
             [Call Engine ''get'' [cid],
              Call Engine ''inspect''
                [engine_get e (trace st1 @ [Call Engine ''get'' [cid]]), callback]])),
       log_call Engine ''inspect''
         [engine_get e (trace st1 @ [Call Engine ''get'' [cid]]), callback]
         (log_call Engine ''get'' [cid] st1))"
    by (simp add: exports_inspect_def ok e engine_async_eq [OF e'])
  moreover have "exports_create ev createOptions callback st =
      (invoke callback
         (engine_create e (trace st1 @ [Call Engine ''create'' [createOptions, callback]])),
       log_call Engine ''create'' [createOptions, callback] st1)"
    by (simp add: exports_create_def ok engine_async_eq [OF e])
  moreover have "exports_start ev cid startOptions callback st =
      (if is_function startOptions \<and> callback = JUndefined
       then (invoke startOptions
               (engine_start e (trace st1 @ [Call Engine ''start'' [cid, JNull, startOptions]])),
             log_call Engine ''start'' [cid, JNull, startOptions] st1)
       else (invoke callback
               (engine_start e (trace st1 @ [Call Engine ''start'' [cid, startOptions, callback]])),
             log_call Engine ''start'' [cid, startOptions, callback] st1))"
    by (simp add: exports_start_def ok engine_async_eq [OF e])
  moreover have "exports_stop ev cid callback st =
      (invoke callback (engine_stop e (trace st1 @ [Call Engine ''stop'' [cid, callback]])),
       log_call Engine ''stop'' [cid, callback] st1)"
    by (simp add: exports_stop_def ok engine_async_eq [OF e])
  moreover have "exports_remove ev cid callback st =
      (invoke callback (engine_remove e (trace st1 @ [Call Engine ''remove'' [cid, callback]])),
       log_call Engine ''remove'' [cid, callback] st1)"
    by (simp add: exports_remove_def ok engine_async_eq [OF e])
  moreover have "exports_build ev (JObject fs) callback st =
      (if truthy (case map_of fs ''build'' of Some x \<Rightarrow> x | None \<Rightarrow> JUndefined)
       then (invoke callback
               (engine_build e (trace st1 @ [Call Engine ''build'' [JObject fs, callback]])),
             log_call Engine ''build'' [JObject fs, callback] st1)
       else (invoke callback
               (engine_pull e (trace st1 @ [Call Engine ''pull'' [JObject fs, callback]])),
             log_call Engine ''pull'' [JObject fs, callback] st1))"
    by (rule exports_build_ok [OF assms(1) f e marker])
  ultimately show "\<exists>e. engine st1 = Some e \<and>
              exports_list ev appName callback st =
                (invoke callback
                   (engine_list e (trace st1 @ [Call Engine ''list'' [appName, callback]])),
                 log_call Engine ''list'' [appName, callback] st1) \<and>
              exports_inspect ev cid callback st =
                (invoke callback
                   (engine_inspect e
                      (trace st1 @
                       [Call Engine ''get'' [cid],
                        Call Engine ''inspect''
                          [engine_get e (trace st1 @ [Call Engine ''get'' [cid]]), callback]])),
                 log_call Engine ''inspect''
                   [engine_get e (trace st1 @ [Call Engine ''get'' [cid]]), callback]
                   (log_call Engine ''get'' [cid] st1)) \<and>
              exports_create ev createOptions callback st =
                (invoke callback
                   (engine_create e (trace st1 @ [Call Engine ''create'' [createOptions, callback]])),
                 log_call Engine ''create'' [createOptions, callback] st1) \<and>
              exports_start ev cid startOptions callback st =
                (if is_function startOptions \<and> callback = JUndefined
                 then (invoke startOptions
                         (engine_start e
                            (trace st1 @ [Call Engine ''start'' [cid, JNull, startOptions]])),
                       log_call Engine ''start'' [cid, JNull, startOptions] st1)
                 else (invoke callback
                         (engine_start e
                            (trace st1 @ [Call Engine ''start'' [cid, startOptions, callback]])),
                       log_call Engine ''start'' [cid, startOptions, callback] st1)) \<and>
              exports_stop ev cid callback st =
                (invoke callback
                   (engine_stop e (trace st1 @ [Call Engine ''stop'' [cid, callback]])),
                 log_call Engine ''stop'' [cid, callback] st1) \<and>
              exports_remove ev cid callback st =
                (invoke callback
                   (engine_remove e (trace st1 @ [Call Engine ''remove'' [cid, callback]])),
                 log_call Engine ''remove'' [cid, callback] st1) \<and>
              exports_build ev (JObject fs) callback st =
                (if truthy (case map_of fs ''build'' of Some x \<Rightarrow> x | None \<Rightarrow> JUndefined)
                 then (invoke callback
                         (engine_build e
                            (trace st1 @ [Call Engine ''build'' [JObject fs, callback]])),
                       log_call Engine ''build'' [JObject fs, callback] st1)
                 else (invoke callback
                         (engine_pull e
                            (trace st1 @ [Call Engine ''pull'' [JObject fs, callback]])),
                       log_call Engine ''pull'' [JObject fs, callback] st1))"
    using e by blast
qed

theorem gate_pass_through_witness:
  "verifyProviderIsReady (env_with provider_isUp_fails) loaded_state =
     (CalledBack (JError ''vm unreachable''),
      loaded_state\<lparr>isProviderInstalled := True, trace := [isInstalled_query, isUp_query]\<rparr>) \<and>
   handle_set loaded_state \<and> truthy (JError ''vm unreachable'') \<and>
   exports_create (env_with provider_isUp_fails) (JObject []) (JFunction 0) loaded_state =
     (Invoked (JFunction 0) [JError ''vm unreachable''],
      loaded_state\<lparr>isProviderInstalled := True, trace := [isInstalled_query, isUp_query]\<rparr>) \<and>
   verifyProviderIsReady (env_with provider_ok) loaded_state =
     (CalledBack JNull, snd (verifyProviderIsReady (env_with provider_ok) loaded_state)) \<and>
   \<not> truthy JNull \<and>
   fst (exports_create (env_with provider_ok) (JObject []) (JFunction 0) loaded_state) =
     Invoked (JFunction 0) [JError ''create failed''] \<and>
   fst (exports_start (env_with provider_ok) (JStr ''c1'') (JObject []) (JFunction 0) loaded_state) =
     Invoked (JFunction 0) [JNull]"
proof -
  have 1: "verifyProviderIsReady (env_with provider_isUp_fails) loaded_state =
     (CalledBack (JError ''vm unreachable''),
      loaded_state\<lparr>isProviderInstalled := True, trace := [isInstalled_query, isUp_query]\<rparr>)"
    by (simp add: example_defs run_defs log_call_def)
  have 2: "handle_set loaded_state"
    by (simp add: handle_set_def example_defs)
  have 3: "verifyProviderIsReady (env_with provider_ok) loaded_state =
     (CalledBack JNull, snd (verifyProviderIsReady (env_with provider_ok) loaded_state))"
    by (simp add: example_defs run_defs log_call_def)
  have 4: "engine (snd (verifyProviderIsReady (env_with provider_ok) loaded_state)) = Some docker"
    by (simp add: verifyProviderIsReady_engine loaded_state_def)
  show ?thesis
    using 1 2 3 4
      gate_pass_through [OF 1 2, of "JStr ''app''" "JFunction 0" "JStr ''c1''" "JObject []"
        JNull "JObject []" "[]"]
      gate_pass_through [OF 3 2, of "JStr ''app''" "JFunction 0" "JStr ''c1''" "JObject []"
        "JObject []" "JObject []" "[]"]
    by (auto simp: invoke_def docker_def)
qed

subsection \<open>\<open>exports.build\<close>: build or pull\<close>

text \<open>
  C7. After the gate has succeeded on a loaded backend, \<open>exports.build\<close> hands the image
  and the callback to the backend's \<open>build\<close> when the image's \<open>build\<close> property is truthy
  and to its \<open>pull\<close> otherwise: the one backend call it makes is named by that property
  alone, and its answer goes to the callback.
\<close>

theorem build_or_pull:
  assumes "verifyProviderIsReady ev st = (CalledBack err, st1)" and "\<not> truthy err"
    and "engine st = Some e" and "get_prop img ''build'' = Inr b"
  shows "exports_build ev img callback st =
           (if truthy b
            then (invoke callback
                    (engine_build e (trace st1 @ [Call Engine ''build'' [img, callback]])),
                  log_call Engine ''build'' [img, callback] st1)
            else (invoke callback
                    (engine_pull e (trace st1 @ [Call Engine ''pull'' [img, callback]])),
                  log_call Engine ''pull'' [img, callback] st1)) \<and>
         new_events st1 (snd (exports_build ev img callback st)) =
           [Call Engine (if truthy b then ''build'' else ''pull'') [img, callback]]"
proof -
  have e: "engine st1 = Some e"
    using verifyProviderIsReady_engine [of ev st] assms(1,3) by simp
  show ?thesis
    by (simp add: exports_build_ok [OF assms(1,2) e assms(4)] new_events_def)
qed

theorem build_or_pull_witness:
  "verifyProviderIsReady (env_with provider_ok) loaded_state =
     (CalledBack JNull, snd (verifyProviderIsReady (env_with provider_ok) loaded_state)) \<and>
   \<not> truthy JNull \<and> engine loaded_state = Some docker \<and>
   get_prop (JObject [(''name'', JStr ''kalabox/web''), (''build'', JBool True)]) ''build'' =
     Inr (JBool True) \<and>
   get_prop (JObject [(''name'', JStr ''kalabox/web'')]) ''build'' = Inr JUndefined \<and>
   fst (exports_build (env_with provider_ok)
          (JObject [(''name'', JStr ''kalabox/web''), (''build'', JBool True)]) (JFunction 0)
          loaded_state) = Invoked (JFunction 0) [JNull, JStr ''built''] \<and>
   fst (exports_build (env_with provider_ok)
          (JObject [(''name'', JStr ''kalabox/web'')]) (JFunction 0)
          loaded_state) = Invoked (JFunction 0) [JNull, JStr ''pulled''] \<and>
   new_events (snd (verifyProviderIsReady (env_with provider_ok) loaded_state))
     (snd (exports_build (env_with provider_ok)
          (JObject [(''name'', JStr ''kalabox/web'')]) (JFunction 0) loaded_state)) =
     [Call Engine ''pull'' [JObject [(''name'', JStr ''kalabox/web'')], JFunction 0]]"
proof -
  have 1: "verifyProviderIsReady (env_with provider_ok) loaded_state =
     (CalledBack JNull, snd (verifyProviderIsReady (env_with provider_ok) loaded_state))"
    by (simp add: example_defs run_defs log_call_def)
  have 2: "\<not> truthy JNull"
    by simp
  have 3: "engine loaded_state = Some docker"
    by (simp add: loaded_state_def)
  have 4: "get_prop (JObject [(''name'', JStr ''kalabox/web''), (''build'', JBool True)]) ''build'' =
     Inr (JBool True)"
    by (simp add: get_prop_def)
  have 5: "get_prop (JObject [(''name'', JStr ''kalabox/web'')]) ''build'' = Inr JUndefined"
    by (simp add: get_prop_def)
  show ?thesis
    using 1 2 3 4 5
      build_or_pull [OF 1 2 3 4, of "JFunction 0"]
      build_or_pull [OF 1 2 3 5, of "JFunction 0"]
    by (simp add: invoke_def docker_def new_events_def)
qed

subsection \<open>Errors of the provider's queries\<close>

lemma uncached_asks_isInstalled:
  assumes "\<not> isProviderInstalled st"
  shows "\<exists>rest. trace (after_installed p st) = trace st @ isInstalled_query # rest"
  using assms
  by (cases rule: verifyProviderInstalled_cases [of st p]) (simp_all add: makeProviderError_eq)

lemma uncached_asks_isUp:
  assumes "\<not> isProviderUp st"
  shows "\<exists>rest. trace (snd (verifyProviderUp p st)) = trace st @ isUp_query # rest"
  using assms
  by (cases rule: verifyProviderUp_cases [of st p]) (simp_all add: makeProviderError_eq)

lemma verifyProviderIsReady_trace_from_up:
  assumes "fst (verifyProviderInstalled (provider ev) st) = JNull"
  shows "\<exists>evs. trace (snd (verifyProviderIsReady ev st)) = trace (after_up (provider ev) st) @ evs"
  using assms
  by (cases rule: verifyProviderIsReady_cases [of ev st])
    (simp_all add: verifyProviderIsReady_up_fails verifyProviderIsReady_cached
      verifyProviderIsReady_config_fails verifyProviderIsReady_null_engine
      verifyProviderIsReady_init)

lemma verifyProviderIsReady_trace_from_installed:
  "\<exists>evs. trace (snd (verifyProviderIsReady ev st)) =
     trace (after_installed (provider ev) st) @ evs"
proof (cases "truthy (fst (verifyProviderInstalled (provider ev) st))")
  case True
  then show ?thesis by (simp add: verifyProviderIsReady_installed_fails)
next
  case False
  then have ok: "fst (verifyProviderInstalled (provider ev) st) = JNull"
    by (simp add: verifyProviderInstalled_falsy)
  obtain evs where 1: "trace (snd (verifyProviderIsReady ev st)) =
      trace (after_up (provider ev) st) @ evs"
    using verifyProviderIsReady_trace_from_up [OF ok] by blast
  obtain evs' where 2: "trace (after_up (provider ev) st) =
      trace (after_installed (provider ev) st) @ evs'"
    using verifyProviderUp_trace [of "provider ev" "after_installed (provider ev) st"] by blast
  show ?thesis
    using 1 2 by simp
qed

text \<open>Which query a run of the gate starts with, by the first fact that is not cached.\<close>

lemma gate_starts_with_isInstalled:
  assumes "\<not> isProviderInstalled st"
  shows "\<exists>rest. new_events st (snd (verifyProviderIsReady ev st)) = isInstalled_query # rest"
proof -
  obtain r1 where "trace (after_installed (provider ev) st) = trace st @ isInstalled_query # r1"
    using uncached_asks_isInstalled [OF assms] by blast
  moreover obtain r2 where "trace (snd (verifyProviderIsReady ev st)) =
      trace (after_installed (provider ev) st) @ r2"
    using verifyProviderIsReady_trace_from_installed by blast
  ultimately show ?thesis
    by (simp add: new_events_def)
qed

lemma gate_starts_with_isUp:
  assumes "isProviderInstalled st" and "\<not> isProviderUp st"
  shows "\<exists>rest. new_events st (snd (verifyProviderIsReady ev st)) = isUp_query # rest"
proof -
  have c: "verifyProviderInstalled (provider ev) st = (JNull, st)"
    using assms(1) by (rule verifyProviderInstalled_cached)
  obtain r1 where "trace (after_up (provider ev) st) = trace st @ isUp_query # r1"
    using uncached_asks_isUp [OF assms(2), of "provider ev"] by (auto simp: c)
  moreover obtain r2 where "trace (snd (verifyProviderIsReady ev st)) =
      trace (after_up (provider ev) st) @ r2"
    using verifyProviderIsReady_trace_from_up [of ev st] by (auto simp: c)
  ultimately show ?thesis
    by (simp add: new_events_def)
qed

lemma gate_starts_with_engineConfig:
  assumes "isProviderInstalled st" and "isProviderUp st" and "\<not> engineHasBeenInit st"
  shows "\<exists>rest. new_events st (snd (verifyProviderIsReady ev st)) = engineConfig_query # rest"
  using assms
  by (simp add: verifyProviderIsReady_def verifyProviderInstalled_cached
      verifyProviderUp_cached Let_def new_events_def split: option.split)

text \<open>
  C8. When the query a check makes comes back with an error, the check calls back with
  that very error and the module variables stay as they were when the query was made;
  only the log grows. For \<open>verifyProviderInstalled\<close> and \<open>verifyProviderUp\<close> that is the state
  before the call. For \<open>verifyProviderIsReady\<close> it is the state the earlier checks of the
  same run left: facts they established stay cached, the fact of the failed query stays
  uncached, and no fact that was cached before the call is lost. The next run starts
  with the query of the first fact that is not cached, so it asks the failed query
  again and does not repeat the ones that succeeded.
\<close>

theorem query_errors_are_not_cached:
  "(\<not> isProviderInstalled st \<and> truthy (arg 0 (isInstalled_reply (provider ev) st)) \<longrightarrow>
      verifyProviderInstalled (provider ev) st =
        (arg 0 (isInstalled_reply (provider ev) st), log_call Provider ''isInstalled'' [] st) \<and>
      facts (after_installed (provider ev) st) = facts st \<and>
      verifyProviderIsReady ev st =
        (CalledBack (arg 0 (isInstalled_reply (provider ev) st)),
         log_call Provider ''isInstalled'' [] st) \<and>
      facts (snd (verifyProviderIsReady ev st)) = facts st \<and>
      (\<exists>rest. new_events (log_call Provider ''isInstalled'' [] st)
                (after_installed (provider ev) (log_call Provider ''isInstalled'' [] st)) =
              isInstalled_query # rest) \<and>
      (\<exists>rest. new_events (log_call Provider ''isInstalled'' [] st)
                (snd (verifyProviderIsReady ev (log_call Provider ''isInstalled'' [] st))) =
              isInstalled_query # rest)) \<and>
   (\<not> isProviderUp st \<and> truthy (arg 0 (isUp_reply (provider ev) st)) \<longrightarrow>
      verifyProviderUp (provider ev) st =
        (arg 0 (isUp_reply (provider ev) st), log_call Provider ''isUp'' [] st) \<and>
      facts (snd (verifyProviderUp (provider ev) st)) = facts st \<and>
      (\<exists>rest. new_events (log_call Provider ''isUp'' [] st)
                (snd (verifyProviderUp (provider ev) (log_call Provider ''isUp'' [] st))) =
              isUp_query # rest)) \<and>
   (fst (verifyProviderInstalled (provider ev) st) = JNull \<and> \<not> isProviderUp st \<and>
    truthy (arg 0 (isUp_reply (provider ev) (after_installed (provider ev) st))) \<longrightarrow>
      verifyProviderIsReady ev st =
        (CalledBack (arg 0 (isUp_reply (provider ev) (after_installed (provider ev) st))),
         log_call Provider ''isUp'' [] (after_installed (provider ev) st)) \<and>
      facts (snd (verifyProviderIsReady ev st)) = (True, False, engineHasBeenInit st) \<and>
      (\<exists>rest. new_events (snd (verifyProviderIsReady ev st))
                (snd (verifyProviderIsReady ev (snd (verifyProviderIsReady ev st)))) =
              isUp_query # rest)) \<and>
   (fst (verifyProviderInstalled (provider ev) st) = JNull \<and>
    fst (verifyProviderUp (provider ev) (after_installed (provider ev) st)) = JNull \<and>
    \<not> engineHasBeenInit st \<and>
    truthy (arg 0 (engineConfig_reply (provider ev) (after_up (provider ev) st))) \<longrightarrow>
      verifyProviderIsReady ev st =
        (CalledBack (arg 0 (engineConfig_reply (provider ev) (after_up (provider ev) st))),
         log_call Provider ''engineConfig'' [] (after_up (provider ev) st)) \<and>
      facts (snd (verifyProviderIsReady ev st)) = (True, True, False) \<and>
      (\<exists>rest. new_events (snd (verifyProviderIsReady ev st))
                (snd (verifyProviderIsReady ev (snd (verifyProviderIsReady ev st)))) =
              engineConfig_query # rest)) \<and>
   facts_kept st (snd (verifyProviderIsReady ev st))"
proof (intro conjI impI)
  assume a: "\<not> isProviderInstalled st \<and> truthy (arg 0 (isInstalled_reply (provider ev) st))"
  then show 1: "verifyProviderInstalled (provider ev) st =
      (arg 0 (isInstalled_reply (provider ev) st), log_call Provider ''isInstalled'' [] st)"
    by (intro verifyProviderInstalled_error) simp_all
  show "facts (after_installed (provider ev) st) = facts st"
    by (simp add: 1)
  show 2: "verifyProviderIsReady ev st =
      (CalledBack (arg 0 (isInstalled_reply (provider ev) st)),
       log_call Provider ''isInstalled'' [] st)"
    using a verifyProviderIsReady_installed_fails [of ev st] by (simp add: 1)
  show "facts (snd (verifyProviderIsReady ev st)) = facts st"
    by (simp add: 2)
  have u: "\<not> isProviderInstalled (log_call Provider ''isInstalled'' [] st)"
    using a by simp
  obtain rest where "trace (after_installed (provider ev) (log_call Provider ''isInstalled'' [] st)) =
      trace (log_call Provider ''isInstalled'' [] st) @ isInstalled_query # rest"
    using uncached_asks_isInstalled [OF u] by blast
  then show "\<exists>rest. new_events (log_call Provider ''isInstalled'' [] st)
      (after_installed (provider ev) (log_call Provider ''isInstalled'' [] st)) =
      isInstalled_query # rest"
    by (simp add: new_events_def)
  show "\<exists>rest. new_events (log_call Provider ''isInstalled'' [] st)
      (snd (verifyProviderIsReady ev (log_call Provider ''isInstalled'' [] st))) =
      isInstalled_query # rest"
    by (rule gate_starts_with_isInstalled [OF u])
next
  assume a: "\<not> isProviderUp st \<and> truthy (arg 0 (isUp_reply (provider ev) st))"
  then show 1: "verifyProviderUp (provider ev) st =
      (arg 0 (isUp_reply (provider ev) st), log_call Provider ''isUp'' [] st)"
    by (intro verifyProviderUp_error) simp_all
  show "facts (snd (verifyProviderUp (provider ev) st)) = facts st"
    by (simp add: 1)
  have u: "\<not> isProviderUp (log_call Provider ''isUp'' [] st)"
    using a by simp
  obtain rest where "trace (snd (verifyProviderUp (provider ev) (log_call Provider ''isUp'' [] st))) =
      trace (log_call Provider ''isUp'' [] st) @ isUp_query # rest"
    using uncached_asks_isUp [OF u] by blast
  then show "\<exists>rest. new_events (log_call Provider ''isUp'' [] st)
      (snd (verifyProviderUp (provider ev) (log_call Provider ''isUp'' [] st))) =
      isUp_query # rest"
    by (simp add: new_events_def)
next
  assume a: "fst (verifyProviderInstalled (provider ev) st) = JNull \<and> \<not> isProviderUp st \<and>
    truthy (arg 0 (isUp_reply (provider ev) (after_installed (provider ev) st)))"
  let ?st1 = "after_installed (provider ev) st"
  have nu: "\<not> isProviderUp ?st1"
    using a by (simp add: verifyProviderInstalled_keeps)
  have up: "verifyProviderUp (provider ev) ?st1 =
      (arg 0 (isUp_reply (provider ev) ?st1), log_call Provider ''isUp'' [] ?st1)"
    using nu a by (intro verifyProviderUp_error) simp_all
  show eq: "verifyProviderIsReady ev st =
      (CalledBack (arg 0 (isUp_reply (provider ev) ?st1)), log_call Provider ''isUp'' [] ?st1)"
    using a verifyProviderIsReady_up_fails [of ev st] by (simp add: up)
  have inst: "isProviderInstalled ?st1"
    using a by (intro verifyProviderInstalled_success) simp
  show "facts (snd (verifyProviderIsReady ev st)) = (True, False, engineHasBeenInit st)"
    using inst nu by (simp add: eq facts_def verifyProviderInstalled_keeps)
  show "\<exists>rest. new_events (snd (verifyProviderIsReady ev st))
      (snd (verifyProviderIsReady ev (snd (verifyProviderIsReady ev st)))) = isUp_query # rest"
    unfolding eq snd_conv
    by (rule gate_starts_with_isUp) (simp_all add: inst nu)
next
  assume a: "fst (verifyProviderInstalled (provider ev) st) = JNull \<and>
    fst (verifyProviderUp (provider ev) (after_installed (provider ev) st)) = JNull \<and>
    \<not> engineHasBeenInit st \<and>
    truthy (arg 0 (engineConfig_reply (provider ev) (after_up (provider ev) st)))"
  let ?st2 = "after_up (provider ev) st"
  show eq: "verifyProviderIsReady ev st =
      (CalledBack (arg 0 (engineConfig_reply (provider ev) ?st2)),
       log_call Provider ''engineConfig'' [] ?st2)"
    using a by (intro verifyProviderIsReady_config_fails) simp_all
  have inst: "isProviderInstalled ?st2"
    using a verifyProviderInstalled_success [of "provider ev" st]
    by (simp add: verifyProviderUp_keeps)
  have up: "isProviderUp ?st2"
    using a by (intro verifyProviderUp_success) simp
  have ni: "\<not> engineHasBeenInit ?st2"
    using a by (simp add: verifyProviderUp_keeps verifyProviderInstalled_keeps)
  show "facts (snd (verifyProviderIsReady ev st)) = (True, True, False)"
    using inst up ni by (simp add: eq facts_def)
  show "\<exists>rest. new_events (snd (verifyProviderIsReady ev st))
      (snd (verifyProviderIsReady ev (snd (verifyProviderIsReady ev st)))) =
      engineConfig_query # rest"
    unfolding eq snd_conv
    by (rule gate_starts_with_engineConfig) (simp_all add: inst up ni)
next
  show "facts_kept st (snd (verifyProviderIsReady ev st))"
    by (rule verifyProviderIsReady_kept)
qed

theorem query_errors_are_not_cached_witness:
  "\<not> isProviderInstalled initial_state \<and>
   truthy (arg 0 (isInstalled_reply (provider (env_with provider_isInstalled_fails)) initial_state)) \<and>
   verifyProviderIsReady (env_with provider_isInstalled_fails) initial_state =
     (CalledBack (JError ''which failed''), initial_state\<lparr>trace := [isInstalled_query]\<rparr>) \<and>
   \<not> isProviderUp loaded_state \<and>
   truthy (arg 0 (isUp_reply (provider (env_with provider_isUp_fails)) loaded_state)) \<and>
   fst (verifyProviderUp (provider (env_with provider_isUp_fails)) loaded_state) =
     JError ''vm unreachable'' \<and>
   fst (verifyProviderInstalled (provider (env_with provider_isUp_fails)) loaded_state) = JNull \<and>
   truthy (arg 0 (isUp_reply (provider (env_with provider_isUp_fails))
     (after_installed (provider (env_with provider_isUp_fails)) loaded_state))) \<and>
   fst (verifyProviderIsReady (env_with provider_isUp_fails) loaded_state) =
     CalledBack (JError ''vm unreachable'') \<and>
   facts (snd (verifyProviderIsReady (env_with provider_isUp_fails) loaded_state)) =
     (True, False, False) \<and>
   fst (verifyProviderInstalled (provider (env_with provider_no_config)) loaded_state) = JNull \<and>
   fst (verifyProviderUp (provider (env_with provider_no_config))
     (after_installed (provider (env_with provider_no_config)) loaded_state)) = JNull \<and>
   \<not> engineHasBeenInit loaded_state \<and>
   truthy (arg 0 (engineConfig_reply (provider (env_with provider_no_config))
     (after_up (provider (env_with provider_no_config)) loaded_state))) \<and>
   fst (verifyProviderIsReady (env_with provider_no_config) loaded_state) =
     CalledBack (JError ''no config'') \<and>
   facts (snd (verifyProviderIsReady (env_with provider_no_config) loaded_state)) =
     (True, True, False) \<and>
   fst (verifyProviderIsReady (env_with provider_isUp_flaky) loaded_state) =
     CalledBack (JError ''vm unreachable'') \<and>
   fst (verifyProviderIsReady (env_with provider_isUp_flaky)
          (snd (verifyProviderIsReady (env_with provider_isUp_flaky) loaded_state))) =
     CalledBack JNull \<and>
   new_events (snd (verifyProviderIsReady (env_with provider_isUp_flaky) loaded_state))
     (snd (verifyProviderIsReady (env_with provider_isUp_flaky)
        (snd (verifyProviderIsReady (env_with provider_isUp_flaky) loaded_state)))) =
     [isUp_query, engineConfig_query, Call Engine ''init'' [the_config]]"
proof -
  have 1: "\<not> isProviderInstalled initial_state \<and>
   truthy (arg 0 (isInstalled_reply (provider (env_with provider_isInstalled_fails)) initial_state))"
    by (simp add: example_defs arg_def)
  have 2: "\<not> isProviderUp loaded_state \<and>
   truthy (arg 0 (isUp_reply (provider (env_with provider_isUp_fails)) loaded_state))"
    by (simp add: example_defs arg_def)
  have 3: "fst (verifyProviderInstalled (provider (env_with provider_isUp_fails)) loaded_state) = JNull \<and>
   truthy (arg 0 (isUp_reply (provider (env_with provider_isUp_fails))
     (after_installed (provider (env_with provider_isUp_fails)) loaded_state)))"
    by (simp add: example_defs run_defs)
  have 4: "fst (verifyProviderInstalled (provider (env_with provider_no_config)) loaded_state) = JNull \<and>
   fst (verifyProviderUp (provider (env_with provider_no_config))
     (after_installed (provider (env_with provider_no_config)) loaded_state)) = JNull \<and>
   \<not> engineHasBeenInit loaded_state \<and>
   truthy (arg 0 (engineConfig_reply (provider (env_with provider_no_config))
     (after_up (provider (env_with provider_no_config)) loaded_state)))"
    by (simp add: example_defs run_defs)
  have 5: "arg 0 (isInstalled_reply (provider (env_with provider_isInstalled_fails)) initial_state) =
      JError ''which failed''"
    "arg 0 (isUp_reply (provider (env_with provider_isUp_fails)) loaded_state) =
      JError ''vm unreachable''"
    "arg 0 (isUp_reply (provider (env_with provider_isUp_fails))
       (after_installed (provider (env_with provider_isUp_fails)) loaded_state)) =
      JError ''vm unreachable''"
    "arg 0 (engineConfig_reply (provider (env_with provider_no_config))
       (after_up (provider (env_with provider_no_config)) loaded_state)) = JError ''no config''"
    by (simp_all add: example_defs arg_def)
  have a: "verifyProviderIsReady (env_with provider_isInstalled_fails) initial_state =
      (CalledBack (arg 0 (isInstalled_reply (provider (env_with provider_isInstalled_fails))
         initial_state)), log_call Provider ''isInstalled'' [] initial_state)"
    using 1 query_errors_are_not_cached [of initial_state "env_with provider_isInstalled_fails"]
    by blast
  have b: "verifyProviderUp (provider (env_with provider_isUp_fails)) loaded_state =
      (arg 0 (isUp_reply (provider (env_with provider_isUp_fails)) loaded_state),
       log_call Provider ''isUp'' [] loaded_state)"
    "verifyProviderIsReady (env_with provider_isUp_fails) loaded_state =
      (CalledBack (arg 0 (isUp_reply (provider (env_with provider_isUp_fails))
         (after_installed (provider (env_with provider_isUp_fails)) loaded_state))),
       log_call Provider ''isUp'' []
         (after_installed (provider (env_with provider_isUp_fails)) loaded_state))"
    "facts (snd (verifyProviderIsReady (env_with provider_isUp_fails) loaded_state)) =
      (True, False, engineHasBeenInit loaded_state)"
    using 2 3 query_errors_are_not_cached [of loaded_state "env_with provider_isUp_fails"]
    by blast+
  have c: "verifyProviderIsReady (env_with provider_no_config) loaded_state =
      (CalledBack (arg 0 (engineConfig_reply (provider (env_with provider_no_config))
         (after_up (provider (env_with provider_no_config)) loaded_state))),
       log_call Provider ''engineConfig'' []
         (after_up (provider (env_with provider_no_config)) loaded_state))"
    "facts (snd (verifyProviderIsReady (env_with provider_no_config) loaded_state)) =
      (True, True, False)"
    using 4 query_errors_are_not_cached [of loaded_state "env_with provider_no_config"]
    by blast+
  have 6: "log_call Provider ''isInstalled'' [] initial_state =
      initial_state\<lparr>trace := [isInstalled_query]\<rparr>"
    "engineHasBeenInit loaded_state = False"
    by (simp_all add: log_call_def initial_state_def loaded_state_def)
  have 7: "fst (verifyProviderIsReady (env_with provider_isUp_flaky) loaded_state) =
     CalledBack (JError ''vm unreachable'') \<and>
   fst (verifyProviderIsReady (env_with provider_isUp_flaky)
          (snd (verifyProviderIsReady (env_with provider_isUp_flaky) loaded_state))) =
     CalledBack JNull \<and>
   new_events (snd (verifyProviderIsReady (env_with provider_isUp_flaky) loaded_state))
     (snd (verifyProviderIsReady (env_with provider_isUp_flaky)
        (snd (verifyProviderIsReady (env_with provider_isUp_flaky) loaded_state)))) =
     [isUp_query, engineConfig_query, Call Engine ''init'' [the_config]]"
    by (simp add: example_defs run_defs log_call_def)
  show ?thesis
    using 1 2 3 4 b(3) c(2) 7 by (simp add: a b(1,2) c(1) 5 6)
qed

subsection \<open>The backend handle\<close>

lemma gated_exec_raised:
  assumes "is_gated c" and "verifyProviderIsReady ev st = (Raised x, st1)"
  shows "exec ev c st = (Threw x, st1)"
  using assms(1)
  by (cases c)
    (simp_all add: exports_list_def exports_inspect_def exports_create_def exports_start_def
      exports_stop_def exports_remove_def exports_build_def gated_raised [OF assms(2)]
      split_def Let_def)

lemma gated_exec_fails:
  assumes "is_gated c" and "verifyProviderIsReady ev st = (CalledBack err, st1)"
    and "truthy err"
  shows "exec ev c st = (invoke (callback_of c) [err], st1)"
  using assms(1)
  by (cases c)
    (simp_all add: exports_list_def exports_inspect_def exports_create_def exports_start_def
      exports_stop_def exports_remove_def exports_build_def gated_fails [OF assms(2,3)]
      split_def Let_def)

lemma verifyProviderIsReady_calls_back:
  assumes "engine st \<noteq> None"
  shows "\<exists>err. fst (verifyProviderIsReady ev st) = CalledBack err"
  using assms
  by (cases rule: verifyProviderIsReady_cases [of ev st])
    (simp_all add: verifyProviderIsReady_installed_fails verifyProviderIsReady_up_fails
      verifyProviderIsReady_cached verifyProviderIsReady_config_fails
      verifyProviderIsReady_init)

lemma exports_init_sets_handle:
  assumes "exports_init ev cfg st = (Returned v, st')"
  shows "engine st' \<noteq> None"
  using assms
  by (auto simp: exports_init_def Let_def split: option.splits)

lemma exec_engine_same:
  assumes "\<forall>cfg. c \<noteq> Init cfg"
  shows "engine (snd (exec ev c st)) = engine st"
proof (cases "is_gated c")
  case True
  then show ?thesis by (rule gated_exec_vars)
next
  case False
  then show ?thesis
    using assms
    by (cases c)
      (simp_all add: exports_getProviderName_def exports_isUp_def exports_up_def
        exports_down_def split_def Let_def verifyProviderInstalled_keeps)
qed

lemma run_without_init:
  assumes "\<forall>cfg. Init cfg \<notin> set cs"
  shows "engine (run ev cs st) = engine st"
  using assms
proof (induction cs arbitrary: st)
  case Nil
  show ?case by simp
next
  case (Cons c cs)
  have "\<forall>cfg. c \<noteq> Init cfg"
    using Cons.prems by auto
  then have "engine (snd (exec ev c st)) = engine st"
    by (rule exec_engine_same)
  moreover have "engine (run ev cs (snd (exec ev c st))) = engine (snd (exec ev c st))"
    using Cons.prems by (intro Cons.IH) auto
  ultimately show ?case by simp
qed

text \<open>
  C9, as the code has it. While \<open>exports.init\<close> has not been called the handle is
  \<open>null\<close>. With the handle \<open>null\<close> and the engine not initialized, a gated operation whose
  gate passes the installed and the up check and then gets a configuration without
  error from \<open>engineConfig\<close> throws the \<open>TypeError\<close> of \<open>engine.init(config)\<close> and calls no
  callback; when \<open>engineConfig\<close> answers with an error instead, the operation calls its
  callback with that error and throws nothing. With a handle, \<open>verifyProviderIsReady\<close> always calls back; \<open>exports.init\<close>
  leaves a handle whenever it returns, and no later call takes the handle away.
\<close>

theorem null_handle_throws_at_init:
  "((\<forall>cfg. Init cfg \<notin> set cs) \<longrightarrow> engine (run ev cs initial_state) = None) \<and>
   (engine st = None \<and> \<not> engineHasBeenInit st \<and> is_gated c \<and>
    fst (verifyProviderInstalled (provider ev) st) = JNull \<and>
    fst (verifyProviderUp (provider ev) (after_installed (provider ev) st)) = JNull \<and>
    \<not> truthy (arg 0 (engineConfig_reply (provider ev) (after_up (provider ev) st))) \<longrightarrow>
      exec ev c st =
        (Threw (null_engine ''init''),
         log_call Provider ''engineConfig'' [] (after_up (provider ev) st))) \<and>
   (engine st = None \<and> \<not> engineHasBeenInit st \<and> is_gated c \<and>
    fst (verifyProviderInstalled (provider ev) st) = JNull \<and>
    fst (verifyProviderUp (provider ev) (after_installed (provider ev) st)) = JNull \<and>
    truthy (arg 0 (engineConfig_reply (provider ev) (after_up (provider ev) st))) \<longrightarrow>
      exec ev c st =
        (invoke (callback_of c)
           [arg 0 (engineConfig_reply (provider ev) (after_up (provider ev) st))],
         log_call Provider ''engineConfig'' [] (after_up (provider ev) st))) \<and>
   (engine st \<noteq> None \<longrightarrow> (\<exists>err. fst (verifyProviderIsReady ev st) = CalledBack err)) \<and>
   (exports_init ev cfg st = (Returned v, st') \<longrightarrow>
      engine st' \<noteq> None \<and> engine (run ev cs st') \<noteq> None)"
proof (intro conjI impI)
  assume "\<forall>cfg. Init cfg \<notin> set cs"
  then show "engine (run ev cs initial_state) = None"
    by (simp add: run_without_init initial_state_def)
next
  assume a: "engine st = None \<and> \<not> engineHasBeenInit st \<and> is_gated c \<and>
    fst (verifyProviderInstalled (provider ev) st) = JNull \<and>
    fst (verifyProviderUp (provider ev) (after_installed (provider ev) st)) = JNull \<and>
    \<not> truthy (arg 0 (engineConfig_reply (provider ev) (after_up (provider ev) st)))"
  then have "verifyProviderIsReady ev st =
      (Raised (null_engine ''init''),
       log_call Provider ''engineConfig'' [] (after_up (provider ev) st))"
    by (intro verifyProviderIsReady_null_engine) simp_all
  then show "exec ev c st =
      (Threw (null_engine ''init''),
       log_call Provider ''engineConfig'' [] (after_up (provider ev) st))"
    using a by (intro gated_exec_raised) simp_all
next
  assume a: "engine st = None \<and> \<not> engineHasBeenInit st \<and> is_gated c \<and>
    fst (verifyProviderInstalled (provider ev) st) = JNull \<and>
    fst (verifyProviderUp (provider ev) (after_installed (provider ev) st)) = JNull \<and>
    truthy (arg 0 (engineConfig_reply (provider ev) (after_up (provider ev) st)))"
  then have "verifyProviderIsReady ev st =
      (CalledBack (arg 0 (engineConfig_reply (provider ev) (after_up (provider ev) st))),
       log_call Provider ''engineConfig'' [] (after_up (provider ev) st))"
    by (intro verifyProviderIsReady_config_fails) simp_all
  then show "exec ev c st =
      (invoke (callback_of c)
         [arg 0 (engineConfig_reply (provider ev) (after_up (provider ev) st))],
       log_call Provider ''engineConfig'' [] (after_up (provider ev) st))"
    using a by (intro gated_exec_fails) simp_all
next
  assume "engine st \<noteq> None"
  then show "\<exists>err. fst (verifyProviderIsReady ev st) = CalledBack err"
    by (rule verifyProviderIsReady_calls_back)
next
  assume a: "exports_init ev cfg st = (Returned v, st')"
  show "engine st' \<noteq> None"
    using a by (rule exports_init_sets_handle)
  then show "engine (run ev cs st') \<noteq> None"
    by (rule run_engine_kept)
qed

theorem null_handle_throws_at_init_witness:
  "(\<forall>cfg. Init cfg \<notin> set [Up (JNum 3) (JFunction 0)]) \<and>
   engine (run (env_with provider_ok) [Up (JNum 3) (JFunction 0)] initial_state) = None \<and>
   engine initial_state = None \<and> \<not> engineHasBeenInit initial_state \<and>
   is_gated (Create (JObject []) (JFunction 0)) \<and>
   fst (verifyProviderInstalled (provider (env_with provider_ok)) initial_state) = JNull \<and>
   fst (verifyProviderUp (provider (env_with provider_ok))
          (after_installed (provider (env_with provider_ok)) initial_state)) = JNull \<and>
   \<not> truthy (arg 0 (engineConfig_reply (provider (env_with provider_ok))
          (after_up (provider (env_with provider_ok)) initial_state))) \<and>
   fst (exec (env_with provider_ok) (Create (JObject []) (JFunction 0)) initial_state) =
     Threw (JError (''TypeError: Cannot read property '' @ [CHR 0x27] @ ''init'' @ [CHR 0x27] @ '' of null'')) \<and>
   is_gated (Start (JStr ''c1'') (JFunction 7) JUndefined) \<and>
   fst (verifyProviderInstalled (provider (env_with provider_no_config)) initial_state) = JNull \<and>
   fst (verifyProviderUp (provider (env_with provider_no_config))
          (after_installed (provider (env_with provider_no_config)) initial_state)) = JNull \<and>
   truthy (arg 0 (engineConfig_reply (provider (env_with provider_no_config))
          (after_up (provider (env_with provider_no_config)) initial_state))) \<and>
   fst (exec (env_with provider_no_config) (Start (JStr ''c1'') (JFunction 7) JUndefined)
          initial_state) = Invoked (JFunction 7) [JError ''no config''] \<and>
   exports_init (env_with provider_ok) \<lparr>config_engine = ''docker''\<rparr> initial_state =
     (Returned JUndefined,
      snd (exports_init (env_with provider_ok) \<lparr>config_engine = ''docker''\<rparr> initial_state)) \<and>
   engine (snd (exports_init (env_with provider_ok) \<lparr>config_engine = ''docker''\<rparr> initial_state)) \<noteq>
     None \<and>
   fst (verifyProviderIsReady (env_with provider_ok)
          (snd (exports_init (env_with provider_ok) \<lparr>config_engine = ''docker''\<rparr> initial_state))) =
     CalledBack JNull"
proof -
  have 1: "\<forall>cfg. Init cfg \<notin> set [Up (JNum 3) (JFunction 0)]"
    by simp
  have 2: "engine initial_state = None \<and> \<not> engineHasBeenInit initial_state \<and>
   is_gated (Create (JObject []) (JFunction 0)) \<and>
   fst (verifyProviderInstalled (provider (env_with provider_ok)) initial_state) = JNull \<and>
   fst (verifyProviderUp (provider (env_with provider_ok))
          (after_installed (provider (env_with provider_ok)) initial_state)) = JNull \<and>
   \<not> truthy (arg 0 (engineConfig_reply (provider (env_with provider_ok))
          (after_up (provider (env_with provider_ok)) initial_state)))"
    by (simp add: example_defs run_defs)
  have 3: "exports_init (env_with provider_ok) \<lparr>config_engine = ''docker''\<rparr> initial_state =
     (Returned JUndefined,
      snd (exports_init (env_with provider_ok) \<lparr>config_engine = ''docker''\<rparr> initial_state))"
    by (simp add: exports_init_def example_defs Let_def)
  have 4: "fst (verifyProviderIsReady (env_with provider_ok)
          (snd (exports_init (env_with provider_ok) \<lparr>config_engine = ''docker''\<rparr> initial_state))) =
     CalledBack JNull"
    by (simp add: exports_init_def example_defs run_defs log_call_def)
  have 5: "engine initial_state = None \<and> \<not> engineHasBeenInit initial_state \<and>
   is_gated (Start (JStr ''c1'') (JFunction 7) JUndefined) \<and>
   fst (verifyProviderInstalled (provider (env_with provider_no_config)) initial_state) = JNull \<and>
   fst (verifyProviderUp (provider (env_with provider_no_config))
          (after_installed (provider (env_with provider_no_config)) initial_state)) = JNull \<and>
   truthy (arg 0 (engineConfig_reply (provider (env_with provider_no_config))
          (after_up (provider (env_with provider_no_config)) initial_state)))"
    by (simp add: example_defs run_defs)
  have 6: "arg 0 (engineConfig_reply (provider (env_with provider_no_config))
      (after_up (provider (env_with provider_no_config)) initial_state)) = JError ''no config''"
    by (simp add: example_defs arg_def)
  have d: "exec (env_with provider_no_config) (Start (JStr ''c1'') (JFunction 7) JUndefined)
      initial_state =
        (invoke (callback_of (Start (JStr ''c1'') (JFunction 7) JUndefined))
           [arg 0 (engineConfig_reply (provider (env_with provider_no_config))
              (after_up (provider (env_with provider_no_config)) initial_state))],
         log_call Provider ''engineConfig'' []
           (after_up (provider (env_with provider_no_config)) initial_state))"
    using 5 null_handle_throws_at_init [where ev = "env_with provider_no_config"
        and st = initial_state and c = "Start (JStr ''c1'') (JFunction 7) JUndefined"]
    by blast
  have e: "fst (exec (env_with provider_no_config) (Start (JStr ''c1'') (JFunction 7) JUndefined)
      initial_state) = Invoked (JFunction 7) [JError ''no config'']"
    by (simp only: d 6 fst_conv) (simp add: invoke_def)
  have a: "engine (run (env_with provider_ok) [Up (JNum 3) (JFunction 0)] initial_state) = None"
    using 1 null_handle_throws_at_init [where cs = "[Up (JNum 3) (JFunction 0)]"
        and ev = "env_with provider_ok"]
    by blast
  have b: "exec (env_with provider_ok) (Create (JObject []) (JFunction 0)) initial_state =
        (Threw (null_engine ''init''),
         log_call Provider ''engineConfig'' []
           (after_up (provider (env_with provider_ok)) initial_state))"
    using 2 null_handle_throws_at_init [where ev = "env_with provider_ok" and st = initial_state
        and c = "Create (JObject []) (JFunction 0)"]
    by blast
  have c: "engine (snd (exports_init (env_with provider_ok) \<lparr>config_engine = ''docker''\<rparr>
      initial_state)) \<noteq> None"
    using 3 null_handle_throws_at_init [where ev = "env_with provider_ok" and st = initial_state
        and cfg = "\<lparr>config_engine = ''docker''\<rparr>" and v = JUndefined]
    by blast
  show ?thesis
    using 1 2 3 4 5 a b c e by (simp add: null_engine_def)
qed

text \<open>
  C9, as stated, fails: with the handle \<open>null\<close>, the gate past the installed and the up
  check and the engine not initialized, a provider whose \<open>engineConfig\<close> answers with an
  error makes \<open>exports.list\<close> call back with that error; nothing is thrown.
\<close>

theorem null_handle_counterexample:
  "engine initial_state = None \<and> \<not> engineHasBeenInit initial_state \<and>
   is_gated (List_op (JStr ''app'') (JFunction 0)) \<and>
   fst (verifyProviderInstalled (provider (env_with provider_no_config)) initial_state) = JNull \<and>
   fst (verifyProviderUp (provider (env_with provider_no_config))
          (after_installed (provider (env_with provider_no_config)) initial_state)) = JNull \<and>
   exec (env_with provider_no_config) (List_op (JStr ''app'') (JFunction 0)) initial_state =
     (Invoked (JFunction 0) [JError ''no config''],
      \<lparr>engine = None, isProviderInstalled = True, isProviderUp = True,
       engineHasBeenInit = False,
       trace = [isInstalled_query, isUp_query, engineConfig_query]\<rparr>)"
  by (simp add: exports_list_def example_defs run_defs log_call_def)

subsection \<open>The log only grows\<close>

text \<open>
  No operation removes or rewrites an entry of the log, so \<open>new_events st st'\<close> is what
  the calls between \<open>st\<close> and \<open>st'\<close> added.
\<close>

lemma verifyProviderIsReady_trace_grows:
  "\<exists>evs. trace (snd (verifyProviderIsReady ev st)) = trace st @ evs"
proof -
  obtain evs1 where "trace (after_installed (provider ev) st) = trace st @ evs1"
    using verifyProviderInstalled_trace by blast
  moreover obtain evs2 where "trace (snd (verifyProviderIsReady ev st)) =
      trace (after_installed (provider ev) st) @ evs2"
    using verifyProviderIsReady_trace_from_installed by blast
  ultimately show ?thesis by simp
qed

lemma engine_async_trace_grows:
  "\<exists>evs. trace (snd (engine_async name m args callback st)) = trace st @ evs"
  by (simp add: engine_async_def split: option.split)

lemma gated_trace_grows:
  assumes "\<And>st1. \<exists>evs. trace (snd (body st1)) = trace st1 @ evs"
  shows "\<exists>evs. trace (snd (gated ev callback body st)) = trace st @ evs"
proof -
  obtain evs1 where 1: "trace (snd (verifyProviderIsReady ev st)) = trace st @ evs1"
    using verifyProviderIsReady_trace_grows by blast
  obtain evs2 where 2: "trace (snd (body (snd (verifyProviderIsReady ev st)))) =
      trace (snd (verifyProviderIsReady ev st)) @ evs2"
    using assms by blast
  show ?thesis
    using 1 2 by (cases "verifyProviderIsReady ev st") (auto simp: gated_def split: verdict.split)
qed

lemma exec_trace_grows: "\<exists>evs. trace (snd (exec ev c st)) = trace st @ evs"
proof (cases c)
  case GetProviderName
  then show ?thesis by (simp add: exports_getProviderName_def)
next
  case (IsUp cb)
  then show ?thesis by (simp add: exports_isUp_def)
next
  case (Init cfg)
  then show ?thesis by (simp add: exports_init_def Let_def split: option.split)
next
  case (Up a cb)
  then show ?thesis
    using verifyProviderInstalled_trace [of "provider ev" st]
    by (auto simp: exports_up_def split_def Let_def)
next
  case (Down a cb)
  then show ?thesis
    using verifyProviderInstalled_trace [of "provider ev" st]
    by (auto simp: exports_down_def split_def Let_def)
next
  case (List_op n cb)
  then show ?thesis
    by (simp add: exports_list_def gated_trace_grows engine_async_trace_grows)
next
  case (Inspect cid cb)
  have "\<exists>evs. trace (snd (exports_inspect ev cid cb st)) = trace st @ evs"
    unfolding exports_inspect_def
    by (rule gated_trace_grows) (simp add: engine_async_def split: option.split)
  then show ?thesis
    using Inspect by simp
next
  case (Create opts cb)
  then show ?thesis
    by (simp add: exports_create_def gated_trace_grows engine_async_trace_grows)
next
  case (Start cid opts cb)
  then show ?thesis
    by (simp add: exports_start_def gated_trace_grows engine_async_trace_grows)
next
  case (Stop cid cb)
  then show ?thesis
    by (simp add: exports_stop_def gated_trace_grows engine_async_trace_grows)
next
  case (Remove cid cb)
  then show ?thesis
    by (simp add: exports_remove_def gated_trace_grows engine_async_trace_grows)
next
  case (Build img cb)
  have "\<exists>evs. trace (snd (exports_build ev img cb st)) = trace st @ evs"
    unfolding exports_build_def
    by (rule gated_trace_grows)
      (simp add: engine_async_def Let_def split: option.split sum.split)
  then show ?thesis
    using Build by simp
qed

lemma run_trace_grows: "\<exists>evs. trace (run ev cs st) = trace st @ evs"
proof (induction cs arbitrary: st)
  case Nil
  show ?case by simp
next
  case (Cons c cs)
  obtain evs1 where "trace (snd (exec ev c st)) = trace st @ evs1"
    using exec_trace_grows by blast
  moreover obtain evs2 where "trace (run ev cs (snd (exec ev c st))) =
      trace (snd (exec ev c st)) @ evs2"
    using Cons.IH by blast
  ultimately show ?case by simp
qed

end
